theory Spec2Isabelle
  imports Complex_Main "HOL-Library.Sublist"
begin

section \<open>Values shared by the modules\<close>

text \<open>
  Wall-clock readings (\<^verbatim>\<open>Date.now()\<close>, \<^verbatim>\<open>new Date()\<close>) are integers, the
  milliseconds since the epoch. A timestamp that the source keeps as an ISO-8601 string
  (\<^verbatim>\<open>toISOString()\<close>) is kept as the instant it denotes: formatting and parsing it
  again (\<^verbatim>\<open>new Date(s)\<close>) give the same instant. A property that JavaScript reads as
  \<^verbatim>\<open>undefined\<close> is \<open>None\<close>.

  A thrown value is an error object: its \<^verbatim>\<open>message\<close> and \<^verbatim>\<open>code\<close>
  properties, either of which may be missing.
\<close>

record js_error =
  message :: "string option"
  code :: "string option"

text \<open>\<^verbatim>\<open>new Error(m)\<close>: a message and no code.\<close>

definition new_Error :: "string \<Rightarrow> js_error" where
  "new_Error m = \<lparr>message = Some m, code = None\<rparr>"

text \<open>\<^verbatim>\<open>s.includes(t)\<close>: \<open>t\<close> occurs in \<open>s\<close> as a contiguous block.\<close>

fun includes_str :: "string \<Rightarrow> string \<Rightarrow> bool" where
  "includes_str [] t = (t = [])"
| "includes_str (c # cs) t = (prefix t (c # cs) \<or> includes_str cs t)"

text \<open>The decimal rendering of an integer inside a template string.\<close>

fun show_nat :: "nat \<Rightarrow> string" where
  "show_nat n =
     (if n < 10 then [''0123456789'' ! n]
      else show_nat (n div 10) @ [''0123456789'' ! (n mod 10)])"

declare show_nat.simps [simp del]

definition show_int :: "int \<Rightarrow> string" where
  "show_int i = (if i < 0 then CHR ''-'' # show_nat (nat (- i)) else show_nat (nat i))"

section \<open>The rate limiter (integration/documentIntegration.js)\<close>

record RateLimiter =
  maxTokens :: int
  refillRate :: int
  tokens :: int
  lastRefill :: int

text \<open>
  The constructor: \<^verbatim>\<open>options.maxRequests || 10\<close> and
  \<^verbatim>\<open>options.perTimeWindow || 60000\<close>, a full bucket, and the time of construction.
  A missing option and the option 0 both give the default, so \<open>refillRate\<close> is never 0.
\<close>

definition new_RateLimiter :: "int option \<Rightarrow> int option \<Rightarrow> int \<Rightarrow> RateLimiter" where
  "new_RateLimiter maxRequests perTimeWindow now =
     (let mt = (case maxRequests of Some n \<Rightarrow> if n \<noteq> 0 then n else 10 | None \<Rightarrow> 10);
          rr = (case perTimeWindow of Some n \<Rightarrow> if n \<noteq> 0 then n else 60000 | None \<Rightarrow> 60000)
      in \<lparr>maxTokens = mt, refillRate = rr, tokens = mt, lastRefill = now\<rparr>)"

text \<open>The message of the rate-limit error, \<open>waitTime\<close> rendered in decimal.\<close>

definition rate_limit_message :: "int \<Rightarrow> string" where
  "rate_limit_message waitTime =
     ''Rate limit exceeded. Try again in '' @ show_int waitTime @ '' seconds.''"

text \<open>
  The first block of \<^verbatim>\<open>execute\<close>, the refill at the clock reading \<open>now\<close>.
  \<^verbatim>\<open>Math.floor(elapsed / this.refillRate)\<close> is \<open>elapsed div refillRate\<close>
  (\<open>refillRate\<close> is not 0).
\<close>

definition refill :: "RateLimiter \<Rightarrow> int \<Rightarrow> RateLimiter" where
  "refill this now =
     (let elapsed = now - lastRefill this
      in if elapsed > 0
         then (let tokensToAdd = (elapsed div refillRate this) * maxTokens this
               in this\<lparr>tokens := min (maxTokens this) (tokens this + tokensToAdd),
                       lastRefill := now\<rparr>)
         else this)"

text \<open>
  \<^verbatim>\<open>execute(fn)\<close> at the clock reading \<open>now\<close>. The wrapped operation \<open>fn\<close> acts on
  a state \<open>'w\<close> of its own and returns a value or throws; \<open>execute\<close> returns what the
  call returns or throws, the limiter after the call and the operation's state after the
  call. \<^verbatim>\<open>Math.ceil(x / 1000)\<close> is \<open>- ((- x) div 1000)\<close>.
\<close>

definition execute ::
  "RateLimiter \<Rightarrow> int \<Rightarrow> ('w \<Rightarrow> (js_error + 'a) \<times> 'w) \<Rightarrow> 'w
     \<Rightarrow> (js_error + 'a) \<times> RateLimiter \<times> 'w" where
  "execute this now fn w =
     (let elapsed = now - lastRefill this;
          this1 = refill this now
      in if tokens this1 < 1
         then (let waitTime = - ((- (refillRate this1 - elapsed)) div 1000)
               in (Inl (new_Error (rate_limit_message waitTime)), this1, w))
         else (let this2 = this1\<lparr>tokens := tokens this1 - 1\<rparr>;
                   (r, w') = fn w
               in (r, this2, w')))"

text \<open>The module's limiter for Gemini calls: five calls per minute.\<close>

definition geminiApiLimiter_init :: "int \<Rightarrow> RateLimiter" where
  "geminiApiLimiter_init now = new_RateLimiter (Some 5) (Some 60000) now"

text \<open>
  A sequence of \<open>execute\<close> calls, one for each clock reading and operation of the list,
  in order; the results of the calls are dropped.
\<close>

fun executes ::
  "RateLimiter \<Rightarrow> (int \<times> ('w \<Rightarrow> (js_error + 'a) \<times> 'w)) list \<Rightarrow> 'w \<Rightarrow> RateLimiter \<times> 'w" where
  "executes this [] w = (this, w)"
| "executes this ((now, fn) # calls) w =
     (case execute this now fn w of (r, this', w') \<Rightarrow> executes this' calls w')"

text \<open>
  Every call of the list comes less than one refill window after the call before it
  (the first one after the reading \<open>prev\<close>).
\<close>

fun close_calls :: "int \<Rightarrow> int \<Rightarrow> int list \<Rightarrow> bool" where
  "close_calls window prev [] = True"
| "close_calls window prev (t # ts) = (t - prev < window \<and> close_calls window t ts)"

section \<open>Jobs (domain/jobManagement.js)\<close>

text \<open>
  A job is an object literal; its properties are the fields below, each of which may be
  missing. A property that is present has the kind of value that the code uses it as: a
  string for names, an integer for counters and times, a boolean for the flag.
  \<open>error\<close> is the structured failure information that the task processor attaches,
  \<open>result\<close> what the PDF pipeline assembles (its four properties and no other),
  \<open>cancellation\<close> what the cancel route attaches.
\<close>

text \<open>
  The \<^verbatim>\<open>analysis\<close> of a document: the error and status of a document without text, or
  the summary, sentiment, keywords, confidence and time of the analysis.
\<close>

datatype analysis =
  NoTextAnalysis string string
| TextAnalysis string string "string list" real int

record pdf_result =
  documentId :: string
  result_extractedText :: "string option"
  result_analysis :: "analysis option"
  processedAt :: int

record error_info =
  error_message :: "string option"
  error_code :: string
  isTransient :: bool
  timestamp :: int

record cancellation_info =
  cancelledAt :: int
  cancelledBy :: string
  reason :: string

record job =
  id_job :: "string option"
  type_job :: "string option"
  status :: "string option"
  createdAt :: "int option"
  updatedAt :: "int option"
  documentUrl :: "string option"
  analyzeContent :: "bool option"
  queuedAt :: "int option"
  scheduledFor :: "int option"
  retries :: "int option"
  maxRetries :: "int option"
  lastError :: "string option"
  result :: "pdf_result option"
  error :: "error_info option"
  cancellation :: "cancellation_info option"

text \<open>The object with no property.\<close>

definition empty_job :: job where
  "empty_job =
     \<lparr>id_job = None, type_job = None, status = None, createdAt = None, updatedAt = None,
      documentUrl = None, analyzeContent = None, queuedAt = None, scheduledFor = None,
      retries = None, maxRetries = None, lastError = None, result = None, error = None,
      cancellation = None\<rparr>"

text \<open>
  \<^verbatim>\<open>{...a, ...b}\<close>: a property that \<open>b\<close> has overrides the one of \<open>a\<close>.
\<close>

definition override :: "'a option \<Rightarrow> 'a option \<Rightarrow> 'a option" where
  "override x y = (case y of Some v \<Rightarrow> Some v | None \<Rightarrow> x)"

definition spread :: "job \<Rightarrow> job \<Rightarrow> job" where
  "spread a b =
     \<lparr>id_job = override (id_job a) (id_job b),
      type_job = override (type_job a) (type_job b),
      status = override (status a) (status b),
      createdAt = override (createdAt a) (createdAt b),
      updatedAt = override (updatedAt a) (updatedAt b),
      documentUrl = override (documentUrl a) (documentUrl b),
      analyzeContent = override (analyzeContent a) (analyzeContent b),
      queuedAt = override (queuedAt a) (queuedAt b),
      scheduledFor = override (scheduledFor a) (scheduledFor b),
      retries = override (retries a) (retries b),
      maxRetries = override (maxRetries a) (maxRetries b),
      lastError = override (lastError a) (lastError b),
      result = override (result a) (result b),
      error = override (error a) (error b),
      cancellation = override (cancellation a) (cancellation b)\<rparr>"

text \<open>
  \<^verbatim>\<open>createJob(jobData)\<close>. \<open>generated\<close> is the value of \<^verbatim>\<open>generateId()\<close>, \<open>t1\<close> and
  \<open>t2\<close> are the two clock readings. The literal lists \<^verbatim>\<open>id\<close>, \<^verbatim>\<open>status\<close>,
  \<^verbatim>\<open>createdAt\<close>, \<^verbatim>\<open>updatedAt\<close> and then \<^verbatim>\<open>...jobData\<close>.
\<close>

definition createJob :: "string \<Rightarrow> int \<Rightarrow> int \<Rightarrow> job \<Rightarrow> job" where
  "createJob generated t1 t2 jobData =
     spread (empty_job\<lparr>id_job := Some generated, status := Some ''pending'',
                        createdAt := Some t1, updatedAt := Some t2\<rparr>)
            jobData"

text \<open>\<^verbatim>\<open>updateJobStatus(job, newStatus)\<close> at the clock reading \<open>t\<close>.\<close>

definition updateJobStatus :: "job \<Rightarrow> string \<Rightarrow> int \<Rightarrow> job" where
  "updateJobStatus j newStatus t = j\<lparr>status := Some newStatus, updatedAt := Some t\<rparr>"

text \<open>
  Truthiness of an optional string (\<^verbatim>\<open>!x\<close> holds of \<^verbatim>\<open>undefined\<close> and of the empty
  string), \<^verbatim>\<open>x || d\<close> on strings and on numbers (0 is falsy), and the rendering of a
  property inside a template string.
\<close>

definition truthy_str :: "string option \<Rightarrow> bool" where
  "truthy_str x = (case x of None \<Rightarrow> False | Some s \<Rightarrow> s \<noteq> [])"

definition str_or :: "string option \<Rightarrow> string \<Rightarrow> string" where
  "str_or x d = (case x of None \<Rightarrow> d | Some s \<Rightarrow> if s \<noteq> [] then s else d)"

definition num_or :: "int option \<Rightarrow> int \<Rightarrow> int" where
  "num_or x d = (case x of None \<Rightarrow> d | Some n \<Rightarrow> if n \<noteq> 0 then n else d)"

definition template_str :: "string option \<Rightarrow> string" where
  "template_str x = (case x of None \<Rightarrow> ''undefined'' | Some s \<Rightarrow> s)"

section \<open>Documents (domain/documentProcessing.js, integration/documentIntegration.js)\<close>

record metadata =
  extractedAt :: int
  charCount :: nat
  metadata_format :: string

text \<open>What the Gemini call returns (the processing time as the number of milliseconds).\<close>

record gemini_result =
  gemini_summary :: string
  topics :: "string list"
  entities :: "(string \<times> string \<times> real) list"
  gemini_sentiment :: string
  language :: string
  gemini_confidence :: real
  processingTime :: real
  model :: string

record document =
  id_doc :: string
  url :: string
  content :: "string option"
  format :: "string option"
  size_doc :: int
  fetchedAt :: int
  extractedText :: "string option"
  metadata :: "metadata option"
  geminiAnalysis :: "gemini_result option"
  analysis :: "analysis option"

text \<open>
  \<^verbatim>\<open>documentUrl.split('/').pop()\<close> is what follows the last slash, and
  \<^verbatim>\<open>.replace(/\.[^/.]+$/, '')\<close> removes a final extension: a dot followed, up to the
  end of the string, by one or more characters that are neither a slash nor a dot.
\<close>

definition last_segment :: "string \<Rightarrow> string" where
  "last_segment s = rev (takeWhile (\<lambda>c. c \<noteq> CHR ''/'') (rev s))"

definition strip_extension :: "string \<Rightarrow> string" where
  "strip_extension s =
     (let ext = takeWhile (\<lambda>c. c \<noteq> CHR ''/'' \<and> c \<noteq> CHR ''.'') (rev s);
          before = dropWhile (\<lambda>c. c \<noteq> CHR ''/'' \<and> c \<noteq> CHR ''.'') (rev s)
      in case before of
           c # cs \<Rightarrow> if c = CHR ''.'' \<and> ext \<noteq> [] then rev cs else s
         | [] \<Rightarrow> s)"

text \<open>
  \<^verbatim>\<open>fetchDocument(documentUrl)\<close> (the argument is \<open>docUrl\<close> here): \<open>draw\<close> is the
  value of \<^verbatim>\<open>Math.random()\<close> for the size and \<open>t\<close> the clock reading.
\<close>

definition fetchDocument :: "string \<Rightarrow> real \<Rightarrow> int \<Rightarrow> document" where
  "fetchDocument docUrl draw t =
     (let documentId = strip_extension (last_segment docUrl)
      in \<lparr>id_doc = documentId,
          url = docUrl,
          content = Some (''This is sample content for document '' @ documentId
                          @ ''. It would normally contain the actual document text.''),
          format = Some (if includes_str docUrl ''.pdf'' then ''pdf''
                         else if includes_str docUrl ''.docx'' then ''docx'' else ''txt''),
          size_doc = \<lfloor>draw * 1000000\<rfloor> + 50000,
          fetchedAt = t,
          extractedText = None, metadata = None, geminiAnalysis = None, analysis = None\<rparr>)"

text \<open>\<^verbatim>\<open>extractTextFromDocument(document)\<close> at the clock reading \<open>t\<close>.\<close>

definition extractTextFromDocument :: "document \<Rightarrow> int \<Rightarrow> document" where
  "extractTextFromDocument d t =
     (let text = (case content d of
                    Some c \<Rightarrow>
                      if c \<noteq> [] then ''Simulated extraction from '' @ take 30 c @ ''...''
                      else ''No content available for extraction''
                  | None \<Rightarrow> ''No content available for extraction'')
      in d\<lparr>extractedText := Some text,
            metadata := Some \<lparr>extractedAt = t, charCount = length text,
                              metadata_format = str_or (format d) ''unknown''\<rparr>\<rparr>)"

text \<open>
  The random draws of \<^verbatim>\<open>analyzeDocument\<close>, each a value of \<^verbatim>\<open>Math.random()\<close>
  (a number in \<open>[0, 1)\<close>): one for the sentiment, one for each of the four sample keywords,
  one for the confidence. \<^verbatim>\<open>Math.round(x)\<close> is \<open>\<lfloor>x + 1 / 2\<rfloor>\<close>.
\<close>

record analysis_draws =
  sentiment_draw :: real
  keyword_draw :: "nat \<Rightarrow> real"
  confidence_draw :: real

definition analyzeDocument :: "document \<Rightarrow> analysis_draws \<Rightarrow> int \<Rightarrow> document" where
  "analyzeDocument d draws t =
     (if \<not> truthy_str (extractedText d)
      then d\<lparr>analysis := Some (NoTextAnalysis ''No extracted text available for analysis''
                                                ''failed'')\<rparr>
      else
        (let sampleKeywords = [''important'', ''document'', ''analysis'', ''processing''];
             randomSentiment =
               [''positive'', ''neutral'', ''negative''] ! nat \<lfloor>sentiment_draw draws * 3\<rfloor>;
             fmt = (case metadata d of None \<Rightarrow> ''unknown''
                    | Some m \<Rightarrow> str_or (Some (metadata_format m)) ''unknown'')
         in d\<lparr>analysis := Some (TextAnalysis
               (''This document appears to be about '' @ fmt @ '' processing.'')
               randomSentiment
               (map fst (filter (\<lambda>(k, i). keyword_draw draws i > 0.5)
                                (zip sampleKeywords [0 ..< 4])))
               (real_of_int \<lfloor>confidence_draw draws * 100 + 1 / 2\<rfloor> / 100)
               t)\<rparr>))"

text \<open>
  \<^verbatim>\<open>callGeminiForAnalysis(documentText)\<close>: the call goes through the module's limiter.
  The Gemini call itself, which the source simulates, is the argument \<open>api\<close>: it returns an
  analysis or throws. The \<^verbatim>\<open>catch\<close> of the function logs and rethrows.
\<close>

definition callGeminiForAnalysis ::
  "(string option \<Rightarrow> js_error + gemini_result) \<Rightarrow> string option \<Rightarrow> int \<Rightarrow> RateLimiter
     \<Rightarrow> (js_error + gemini_result) \<times> RateLimiter" where
  "callGeminiForAnalysis api documentText now limiter =
     (case execute limiter now (\<lambda>u. (api documentText, u)) () of
        (r, limiter', u) \<Rightarrow> (r, limiter'))"

text \<open>
  The simulated call of the source, with the draws of \<^verbatim>\<open>Math.random()\<close> as arguments:
  on a string it never throws; \<^verbatim>\<open>documentText.length\<close> throws when there is no text.
\<close>

record gemini_draws =
  time_draw :: real
  topic_draw :: "nat \<Rightarrow> real"
  sentiment_draw1 :: real
  sentiment_draw2 :: real
  gemini_confidence_draw :: real

definition simulatedGemini :: "gemini_draws \<Rightarrow> string option \<Rightarrow> js_error + gemini_result" where
  "simulatedGemini gd documentText =
     (case documentText of
        None \<Rightarrow> Inl (new_Error ''Cannot read properties of undefined (reading 'length')'')
      | Some txt \<Rightarrow>
          Inr \<lparr>gemini_summary = ''This appears to be a ''
                  @ (if length txt > 500 then ''long'' else ''short'')
                  @ '' document about various topics.'',
               topics = map fst (filter (\<lambda>(k, i). topic_draw gd i > 0.5)
                          (zip [''business'', ''technology'', ''documentation''] [0 ..< 3])),
               entities = [(''Example Corp'', ''organization'', 0.85),
                           (''Processing Engine'', ''product'', 0.92)],
               gemini_sentiment = (if sentiment_draw1 gd > 0.7 then ''positive''
                                   else if sentiment_draw2 gd > 0.4 then ''neutral''
                                   else ''negative''),
               language = ''en'',
               gemini_confidence = 0.75 + gemini_confidence_draw gd * 0.2,
               processingTime = 1000 + time_draw gd * 1000,
               model = ''gemini-1.5-pro-simulation''\<rparr>)"

section \<open>The task processor (processor/taskProcessor.js)\<close>

text \<open>
  \<^verbatim>\<open>isTransientError(error)\<close> returns a boolean or throws: calling
  \<^verbatim>\<open>.includes\<close> on a missing message is a \<^verbatim>\<open>TypeError\<close>. The first test
  guards the call by \<^verbatim>\<open>error.message &&\<close>; the second one calls it unguarded, after
  the three comparisons of the code.
\<close>

definition includes_TypeError :: js_error where
  "includes_TypeError = new_Error ''Cannot read properties of undefined (reading 'includes')''"

definition isTransientError :: "js_error \<Rightarrow> js_error + bool" where
  "isTransientError e =
     (if (case message e of
            Some m \<Rightarrow> m \<noteq> [] \<and> includes_str m ''Rate limit exceeded''
          | None \<Rightarrow> False)
      then Inr True
      else if code e = Some ''ETIMEDOUT'' \<or> code e = Some ''ECONNRESET''
              \<or> code e = Some ''ECONNREFUSED''
      then Inr True
      else (case message e of
              None \<Rightarrow> Inl includes_TypeError
            | Some m \<Rightarrow> if includes_str m ''timeout'' then Inr True else Inr False))"

text \<open>
  The state outside a job that processing reads and writes: the limiter of the Gemini
  calls, the jobs handed to \<^verbatim>\<open>saveJob\<close> and to \<^verbatim>\<open>notifyJobStatusChange\<close>, oldest
  first (both functions of integration/jobIntegration.js return without throwing), and the
  in-memory job store of the routes.
\<close>

record world =
  geminiApiLimiter :: RateLimiter
  saved :: "job list"
  notified :: "job list"
  jobStore :: "string \<rightharpoonup> job"

definition saveJob :: "job \<Rightarrow> world \<Rightarrow> world" where
  "saveJob j w = w\<lparr>saved := saved w @ [j]\<rparr>"

definition notifyJobStatusChange :: "job \<Rightarrow> world \<Rightarrow> world" where
  "notifyJobStatusChange j w = w\<lparr>notified := notified w @ [j]\<rparr>"

text \<open>
  What one run of \<^verbatim>\<open>processJob\<close> takes from outside: the clock readings, in the order
  of the places that read the clock, the random draws, and the Gemini call.
\<close>

record env =
  t_processing :: int
  t_fetched :: int
  t_extracted :: int
  t_limiter :: int
  t_analyzed :: int
  t_processed :: int
  t_completed :: int
  t_failed :: int
  t_error :: int
  size_draw :: real
  draws :: analysis_draws
  gemini :: "string option \<Rightarrow> js_error + gemini_result"

text \<open>
  Step 3 of \<^verbatim>\<open>processPdfJob\<close>: the analysis, skipped when the job has
  \<^verbatim>\<open>analyzeContent: false\<close>. A failed Gemini call is caught, and the document is analysed
  without it.
\<close>

definition analyzeStep ::
  "job \<Rightarrow> document \<Rightarrow> env \<Rightarrow> RateLimiter \<Rightarrow> document \<times> RateLimiter" where
  "analyzeStep j documentWithText ev limiter =
     (if analyzeContent j \<noteq> Some False
      then (case callGeminiForAnalysis (gemini ev) (extractedText documentWithText)
                   (t_limiter ev) limiter of
              (Inr analysisResult, limiter') \<Rightarrow>
                (analyzeDocument (documentWithText\<lparr>geminiAnalysis := Some analysisResult\<rparr>)
                   (draws ev) (t_analyzed ev), limiter')
            | (Inl err, limiter') \<Rightarrow>
                (analyzeDocument documentWithText (draws ev) (t_analyzed ev), limiter'))
      else (documentWithText, limiter))"

definition processPdfJob :: "job \<Rightarrow> env \<Rightarrow> RateLimiter \<Rightarrow> (js_error + job) \<times> RateLimiter" where
  "processPdfJob j ev limiter =
     (case documentUrl j of
        None \<Rightarrow> (Inl (new_Error ''Missing documentUrl for PDF processing job''), limiter)
      | Some docUrl \<Rightarrow>
          if docUrl = []
          then (Inl (new_Error ''Missing documentUrl for PDF processing job''), limiter)
          else
            (let doc = fetchDocument docUrl (size_draw ev) (t_fetched ev);
                 documentWithText = extractTextFromDocument doc (t_extracted ev);
                 (processedDocument, limiter') = analyzeStep j documentWithText ev limiter
             in (Inr (j\<lparr>result := Some \<lparr>documentId = id_doc doc,
                                          result_extractedText = extractedText processedDocument,
                                          result_analysis = analysis processedDocument,
                                          processedAt = t_processed ev\<rparr>\<rparr>),
                 limiter')))"

text \<open>
  The job that the \<^verbatim>\<open>catch\<close> block of \<^verbatim>\<open>processJob\<close> records, for the job
  \<open>j\<close> that \<^verbatim>\<open>processJob\<close> was called with, the thrown \<open>err\<close>, its classification
  and the two clock readings.
\<close>

definition jobWithError :: "job \<Rightarrow> js_error \<Rightarrow> bool \<Rightarrow> int \<Rightarrow> int \<Rightarrow> job" where
  "jobWithError j err transient t1 t2 =
     (let retryStatus = (if transient then ''retry'' else ''failed'');
          failedJob = updateJobStatus j retryStatus t1
      in failedJob\<lparr>error := Some
           \<lparr>error_message = message err,
            error_code = str_or (code err) ''UNKNOWN_ERROR'',
            isTransient = transient,
            timestamp = t2\<rparr>\<rparr>)"

text \<open>
  The \<^verbatim>\<open>catch\<close> block: classify, record, notify, rethrow. When
  \<^verbatim>\<open>isTransientError\<close> throws, that error leaves \<^verbatim>\<open>processJob\<close> at once.
\<close>

definition processJob_catch ::
  "job \<Rightarrow> js_error \<Rightarrow> int \<Rightarrow> int \<Rightarrow> world \<Rightarrow> (js_error + job) \<times> world" where
  "processJob_catch j err t1 t2 w =
     (case isTransientError err of
        Inl thrown \<Rightarrow> (Inl thrown, w)
      | Inr transient \<Rightarrow>
          (let recorded = jobWithError j err transient t1 t2;
               w1 = saveJob recorded w;
               w2 = notifyJobStatusChange recorded w1
           in (Inl err, w2)))"

definition processJob :: "job \<Rightarrow> env \<Rightarrow> world \<Rightarrow> (js_error + job) \<times> world" where
  "processJob j ev w =
     (let updatedJob = updateJobStatus j ''processing'' (t_processing ev);
          w1 = saveJob updatedJob w;
          w2 = notifyJobStatusChange updatedJob w1
      in if type_job j = Some ''pdf-processing''
         then (case processPdfJob updatedJob ev (geminiApiLimiter w2) of
                 (Inr processed, limiter') \<Rightarrow>
                   (let completedJob = updateJobStatus processed ''completed'' (t_completed ev);
                        w3 = saveJob completedJob (w2\<lparr>geminiApiLimiter := limiter'\<rparr>);
                        w4 = notifyJobStatusChange completedJob w3
                    in (Inr completedJob, w4))
               | (Inl err, limiter') \<Rightarrow>
                   processJob_catch j err (t_failed ev) (t_error ev)
                     (w2\<lparr>geminiApiLimiter := limiter'\<rparr>))
         else processJob_catch j
                (new_Error (''Unsupported job type: '' @ template_str (type_job j)))
                (t_failed ev) (t_error ev) w2)"

section \<open>Backoff (queue/jobQueueManager.js)\<close>

text \<open>
  \<^verbatim>\<open>calculateBackoff(retryCount)\<close>, with the value of \<^verbatim>\<open>Math.random() * 1000\<close>
  as the argument \<open>jitter\<close> (a number in \<open>[0, 1000)\<close>). Numbers are reals;
  \<^verbatim>\<open>Math.pow(2, retryCount)\<close> is the power with an integer exponent.
\<close>

definition calculateBackoff :: "int \<Rightarrow> real \<Rightarrow> real" where
  "calculateBackoff retryCount jitter =
     (let baseDelay = 1000;
          maxDelay = 60000;
          delay = min maxDelay (power_int 2 retryCount * baseDelay + jitter)
      in delay)"

text \<open>
  The module's state: the queue, the in-flight flag and the task processor that
  \<^verbatim>\<open>initialize\<close> stored. A processor takes the job and its own state \<open>'p\<close>, and returns
  the processed job or throws.
\<close>

record 'p queue_manager =
  jobQueue :: "job list"
  isProcessing :: bool
  taskProcessor :: "(job \<Rightarrow> 'p \<Rightarrow> (js_error + job) \<times> 'p) option"

text \<open>
  \<^verbatim>\<open>addJob(job)\<close> on the queue \<open>q\<close>, with the two clock readings: the queued job and
  the queue after the push, or the error thrown for a job without an id.
\<close>

definition addJob :: "job \<Rightarrow> int \<Rightarrow> int \<Rightarrow> job list \<Rightarrow> js_error + (job \<times> job list)" where
  "addJob j t1 t2 q =
     (if \<not> truthy_str (id_job j)
      then Inl (new_Error ''Invalid job: must have an id property'')
      else (let queuedJob = j\<lparr>queuedAt := Some t1,
                               scheduledFor := Some (case scheduledFor j of
                                                       Some t \<Rightarrow> t | None \<Rightarrow> t2)\<rparr>
            in Inr (queuedJob, q @ [queuedJob])))"

text \<open>
  The comparator of the sort, \<^verbatim>\<open>new Date(a.scheduledFor) - new Date(b.scheduledFor)\<close>:
  a missing date makes the difference \<^verbatim>\<open>NaN\<close>, which a sort takes as 0. The sort is
  stable; it is written as the insertion of each job before the first one that the
  comparator does not put before it.
\<close>

definition compare_scheduled :: "job \<Rightarrow> job \<Rightarrow> int" where
  "compare_scheduled a b =
     (case (scheduledFor a, scheduledFor b) of
        (Some x, Some y) \<Rightarrow> x - y
      | _ \<Rightarrow> 0)"

fun insert_scheduled :: "job \<Rightarrow> job list \<Rightarrow> job list" where
  "insert_scheduled a [] = [a]"
| "insert_scheduled a (b # bs) =
     (if compare_scheduled a b \<le> 0 then a # b # bs else b # insert_scheduled a bs)"

definition sort_scheduled :: "job list \<Rightarrow> job list" where
  "sort_scheduled q = foldr insert_scheduled q []"

text \<open>\<^verbatim>\<open>new Date(x)\<close> of a number drops the fraction of a millisecond.\<close>

definition new_Date :: "real \<Rightarrow> int" where
  "new_Date x = (if 0 \<le> x then \<lfloor>x\<rfloor> else \<lceil>x\<rceil>)"

text \<open>What one tick takes from outside: the clock readings and the jitter of the backoff.\<close>

record tick_env =
  t_tick :: int
  t_retry :: int
  t_queued1 :: int
  t_queued2 :: int
  jitter_draw :: real

text \<open>
  \<^verbatim>\<open>processNextJob()\<close>, one tick run to its end. The result is the error that leaves
  the tick, if any (only \<^verbatim>\<open>addJob\<close> inside the \<^verbatim>\<open>catch\<close> block can throw one),
  the module's state and the processor's state after the tick. After the first test the
  processor is there and the sorted queue has a first job, \<^verbatim>\<open>jobQueue[0]\<close>.
\<close>

definition processNextJob ::
  "tick_env \<Rightarrow> 'p queue_manager \<Rightarrow> 'p \<Rightarrow> js_error option \<times> 'p queue_manager \<times> 'p" where
  "processNextJob te qm p =
     (if isProcessing qm \<or> taskProcessor qm = None \<or> jobQueue qm = []
      then (None, qm, p)
      else
        (case taskProcessor qm of
           None \<Rightarrow> (None, qm, p)
         | Some processor \<Rightarrow>
            (case sort_scheduled (jobQueue qm) of
               [] \<Rightarrow> (None, qm, p)
             | nextJob # rest \<Rightarrow>
                 (let qm1 = qm\<lparr>jobQueue := nextJob # rest\<rparr>
                  in if (case scheduledFor nextJob of Some t \<Rightarrow> t \<le> t_tick te | None \<Rightarrow> False)
                     then
                       (let qm2 = qm1\<lparr>isProcessing := True,
                                       jobQueue := filter (\<lambda>j. id_job j \<noteq> id_job nextJob)
                                                          (nextJob # rest)\<rparr>
                        in case processor nextJob p of
                             (Inr processed, p') \<Rightarrow> (None, qm2\<lparr>isProcessing := False\<rparr>, p')
                           | (Inl err, p') \<Rightarrow>
                               if (case retries nextJob of
                                     Some r \<Rightarrow> r < num_or (maxRetries nextJob) 3
                                   | None \<Rightarrow> False)
                               then
                                 (let retryDelay = calculateBackoff (num_or (retries nextJob) 0)
                                                     (jitter_draw te);
                                      retryTime = new_Date (real_of_int (t_retry te) + retryDelay)
                                  in case addJob (nextJob\<lparr>retries := Some (num_or (retries nextJob) 0 + 1),
                                                          scheduledFor := Some retryTime,
                                                          lastError := message err\<rparr>)
                                            (t_queued1 te) (t_queued2 te) (jobQueue qm2) of
                                       Inr (queuedJob, q') \<Rightarrow>
                                         (None, qm2\<lparr>jobQueue := q', isProcessing := False\<rparr>, p')
                                     | Inl thrown \<Rightarrow>
                                         (Some thrown, qm2\<lparr>isProcessing := False\<rparr>, p'))
                               else (None, qm2\<lparr>isProcessing := False\<rparr>, p'))
                     else (None, qm1, p)))))"

section \<open>The cancel route (api/jobRoutes.js)\<close>

text \<open>
  What the handler of \<^verbatim>\<open>DELETE /api/v1/jobs/:jobId\<close> reads of the request: the id in
  the path, the id of the authenticated user if there is one, and the body, which may be
  missing, with its optional reason.
\<close>

record request =
  jobId :: string
  user_id :: "string option"
  body :: "string option option"

text \<open>
  A response is its HTTP status and its JSON body: an error with its message, or the
  confirmation of the cancellation (id, status, message, time).
\<close>

datatype response_body =
  ErrorBody string string
| CancelledBody string string string int

type_synonym response = "nat \<times> response_body"

text \<open>
  \<^verbatim>\<open>findJobById\<close>: \<^verbatim>\<open>fetchJobFromFirebase\<close> returns \<^verbatim>\<open>null\<close>, so the job is
  the one of the in-memory store.
\<close>

definition findJobById :: "string \<Rightarrow> world \<Rightarrow> job option" where
  "findJobById i w = jobStore w i"

text \<open>
  The handler, with its two clock readings. Reading \<^verbatim>\<open>req.body.reason\<close> of a missing
  body throws; the \<^verbatim>\<open>catch\<close> of the handler answers 500.
\<close>

definition cancelJob :: "request \<Rightarrow> int \<Rightarrow> int \<Rightarrow> world \<Rightarrow> response \<times> world" where
  "cancelJob req t1 t2 w =
     (case findJobById (jobId req) w of
        None \<Rightarrow> ((404, ErrorBody ''Job not found'' (''No job found with ID: '' @ jobId req)), w)
      | Some j \<Rightarrow>
          if status j \<noteq> Some ''pending''
          then ((400, ErrorBody ''Cannot cancel job''
                        (''Job with status '' @ [CHR 0x22] @ template_str (status j)
                         @ [CHR 0x22]
                         @ '' cannot be cancelled. Only pending jobs can be cancelled.'')), w)
          else
            (let cancelledJob = updateJobStatus j ''cancelled'' t1
             in case body req of
                  None \<Rightarrow>
                    ((500, ErrorBody ''Failed to cancel job''
                             ''Cannot read properties of undefined (reading 'reason')''), w)
                | Some why \<Rightarrow>
                    (let jobWithCancellationInfo = cancelledJob\<lparr>cancellation := Some
                           \<lparr>cancelledAt = t2,
                            cancelledBy = str_or (user_id req) ''unknown'',
                            reason = str_or why ''User cancelled''\<rparr>\<rparr>;
                         w1 = saveJob jobWithCancellationInfo w;
                         w2 = notifyJobStatusChange jobWithCancellationInfo w1;
                         w3 = w2\<lparr>jobStore := (jobStore w2)(jobId req \<mapsto> jobWithCancellationInfo)\<rparr>
                     in ((200, CancelledBody (jobId req) ''cancelled''
                                 ''Job cancelled successfully'' t2), w3))))"

section \<open>Sample values\<close>

text \<open>Concrete inputs at which the theorems below are evaluated.\<close>

abbreviation sample_env :: env where
  "sample_env \<equiv>
     \<lparr>t_processing = 1, t_fetched = 2, t_extracted = 3, t_limiter = 1000, t_analyzed = 1001,
      t_processed = 1002, t_completed = 1003, t_failed = 1004, t_error = 1005,
      size_draw = 1 / 2,
      draws = \<lparr>sentiment_draw = 1 / 2, keyword_draw = (\<lambda>i. 3 / 4), confidence_draw = 1 / 4\<rparr>,
      gemini = simulatedGemini
                 \<lparr>time_draw = 1 / 2, topic_draw = (\<lambda>i. 3 / 4), sentiment_draw1 = 1 / 2,
                  sentiment_draw2 = 1 / 2, gemini_confidence_draw = 1 / 2\<rparr>\<rparr>"

abbreviation empty_limiter :: RateLimiter where
  "empty_limiter \<equiv> \<lparr>maxTokens = 5, refillRate = 60000, tokens = 0, lastRefill = 0\<rparr>"

abbreviation sample_world :: "RateLimiter \<Rightarrow> world" where
  "sample_world limiter \<equiv>
     \<lparr>geminiApiLimiter = limiter, saved = [], notified = [], jobStore = Map.empty\<rparr>"

abbreviation pdf_job :: job where
  "pdf_job \<equiv> empty_job\<lparr>id_job := Some ''j1'', type_job := Some ''pdf-processing'',
                         status := Some ''pending'',
                         documentUrl := Some ''gs://bucket/docs/doc-1.pdf''\<rparr>"

abbreviation unknown_job :: job where
  "unknown_job \<equiv> empty_job\<lparr>id_job := Some ''j2'', type_job := Some ''unknown-type''\<rparr>"

abbreviation queued :: "job \<Rightarrow> job" where
  "queued j \<equiv> j\<lparr>queuedAt := Some 0, scheduledFor := Some 0\<rparr>"

abbreviation sample_tick :: tick_env where
  "sample_tick \<equiv>
     \<lparr>t_tick = 5000, t_retry = 6000, t_queued1 = 6001, t_queued2 = 6001, jitter_draw = 250.5\<rparr>"

abbreviation failing :: "job \<Rightarrow> unit \<Rightarrow> (js_error + job) \<times> unit" where
  "failing \<equiv> (\<lambda>j p. (Inl (new_Error ''boom''), p))"

section \<open>The rate limiter: failed calls and refills\<close>

lemma refillRate_refill: "refillRate (refill l now) = refillRate l"
  by (simp add: refill_def Let_def)

lemma refill_unchanged_iff: "refill l now = l \<longleftrightarrow> now \<le> lastRefill l"
proof
  assume same: "refill l now = l"
  show "now \<le> lastRefill l"
  proof (rule ccontr)
    assume later: "\<not> now \<le> lastRefill l"
    then have "lastRefill (refill l now) = now" by (simp add: refill_def Let_def)
    with same later show False by simp
  qed
next
  assume "now \<le> lastRefill l"
  then show "refill l now = l" by (simp add: refill_def Let_def)
qed

lemma execute_limiter_cases:
  "fst (snd (execute l now fn w)) = refill l now
   \<or> fst (snd (execute l now fn w)) = (refill l now)\<lparr>tokens := tokens (refill l now) - 1\<rparr>"
  by (simp add: execute_def Let_def split: prod.splits)

text \<open>
  C2, as stated, at a concrete call: an empty bucket of five tokens per minute, last
  refilled at time 0, is called at time 1000. The call fails with the rate-limit error and
  the operation's state is untouched, but the limiter is not the one before the call:
  \<open>lastRefill\<close> has moved from 0 to 1000.
\<close>

theorem execute_failure_moves_lastRefill:
  "execute \<lparr>maxTokens = 5, refillRate = 60000, tokens = 0, lastRefill = 0\<rparr> 1000
     (\<lambda>u. (Inr True, u)) ()
   = (Inl (new_Error (rate_limit_message 59)),
      \<lparr>maxTokens = 5, refillRate = 60000, tokens = 0, lastRefill = 1000\<rparr>, ())
   \<and> \<lparr>maxTokens = 5, refillRate = 60000, tokens = 0, lastRefill = 1000\<rparr>
       \<noteq> \<lparr>maxTokens = 5, refillRate = 60000, tokens = 0, lastRefill = 0\<rparr>"
  by (simp add: execute_def refill_def Let_def)

text \<open>
  C2, amended. When the limiter has less than one token after the refill, \<open>execute\<close>
  fails with the rate-limit error and does not invoke the operation: the result does not
  depend on \<open>fn\<close> and the operation's state is returned as it was. The limiter after the
  failed call is the refilled one: \<open>lastRefill\<close> is \<open>now\<close> whenever time has passed since
  the last refill, so the limiter is the same as before the call only when none has
  (\<open>now \<le> lastRefill\<close>). In a limiter with a positive window, a capacity of at least one
  token and no negative count, the token count is the same as before the call.
  (The window of the limiter is not 0: the constructor never gives 0.)
\<close>

theorem execute_rate_limited:
  assumes "refillRate l \<noteq> 0" and "tokens (refill l now) < 1"
  shows "execute l now fn w =
           (Inl (new_Error (rate_limit_message
                  (- ((- (refillRate l - (now - lastRefill l))) div 1000)))),
            refill l now, w)
         \<and> lastRefill (refill l now) = (if lastRefill l < now then now else lastRefill l)
         \<and> (0 \<le> tokens l \<and> 1 \<le> maxTokens l \<and> 0 < refillRate l
              \<longrightarrow> tokens (refill l now) = tokens l)
         \<and> (refill l now = l \<longleftrightarrow> now \<le> lastRefill l)"
proof -
  have fails: "execute l now fn w =
           (Inl (new_Error (rate_limit_message
                  (- ((- (refillRate l - (now - lastRefill l))) div 1000)))),
            refill l now, w)"
    using assms(2) by (simp add: execute_def Let_def refillRate_refill)
  have moved: "lastRefill (refill l now) = (if lastRefill l < now then now else lastRefill l)"
    by (simp add: refill_def Let_def)
  have count: "0 \<le> tokens l \<and> 1 \<le> maxTokens l \<and> 0 < refillRate l
             \<longrightarrow> tokens (refill l now) = tokens l"
  proof
    assume inv: "0 \<le> tokens l \<and> 1 \<le> maxTokens l \<and> 0 < refillRate l"
    show "tokens (refill l now) = tokens l"
    proof (cases "lastRefill l < now")
      case False
      then show ?thesis by (simp add: refill_def Let_def)
    next
      case True
      let ?add = "((now - lastRefill l) div refillRate l) * maxTokens l"
      from True have t: "tokens (refill l now) = min (maxTokens l) (tokens l + ?add)"
        by (simp add: refill_def Let_def)
      with assms(2) inv have lt: "tokens l + ?add < 1" by (simp add: min_def split: if_splits)
      from True inv have "0 \<le> (now - lastRefill l) div refillRate l"
        by (simp add: pos_imp_zdiv_nonneg_iff)
      with inv have "0 \<le> ?add" by simp
      with lt inv have "tokens l + ?add = tokens l" by linarith
      with t inv assms(2) show ?thesis by (simp add: min_def split: if_splits)
    qed
  qed
  show ?thesis using fails moved count refill_unchanged_iff by blast
qed

theorem execute_rate_limited_witness:
  "refillRate \<lparr>maxTokens = 5, refillRate = 60000, tokens = 0, lastRefill = 0\<rparr> \<noteq> 0
   \<and> tokens (refill \<lparr>maxTokens = 5, refillRate = 60000, tokens = 0, lastRefill = 0\<rparr> 1000) < 1
   \<and> execute \<lparr>maxTokens = 5, refillRate = 60000, tokens = 0, lastRefill = 0\<rparr> 1000
        (\<lambda>u. (Inr True, u)) ()
      = (Inl (new_Error (rate_limit_message 59)),
         \<lparr>maxTokens = 5, refillRate = 60000, tokens = 0, lastRefill = 1000\<rparr>, ())"
proof -
  let ?l = "\<lparr>maxTokens = 5, refillRate = 60000, tokens = 0, lastRefill = 0\<rparr>"
  have h1: "refillRate ?l \<noteq> 0" by simp
  have h2: "tokens (refill ?l 1000) < 1" by (simp add: refill_def Let_def)
  show ?thesis
    using h1 h2 execute_rate_limited [OF h1 h2, of "\<lambda>u. (Inr True, u)" "()"]
    by (simp add: refill_def Let_def)
qed

subsection \<open>Calls that come close together\<close>

lemma refill_close:
  assumes "prev \<le> lastRefill l" and "now - prev < refillRate l"
  shows "tokens (refill l now) \<le> tokens l" and "now \<le> lastRefill (refill l now)"
proof -
  show "tokens (refill l now) \<le> tokens l"
  proof (cases "0 < now - lastRefill l")
    case True
    with assms have "now - lastRefill l < refillRate l" by linarith
    with True have "(now - lastRefill l) div refillRate l = 0" by simp
    with True show ?thesis by (simp add: refill_def Let_def)
  next
    case False
    then show ?thesis by (simp add: refill_def Let_def)
  qed
  show "now \<le> lastRefill (refill l now)"
    by (simp add: refill_def Let_def)
qed

lemma execute_close:
  assumes "prev \<le> lastRefill l" and "now - prev < refillRate l"
  shows "tokens (fst (snd (execute l now fn w))) \<le> tokens l"
    and "now \<le> lastRefill (fst (snd (execute l now fn w)))"
    and "refillRate (fst (snd (execute l now fn w))) = refillRate l"
  using refill_close [OF assms] execute_limiter_cases [of l now fn w]
  by (auto simp: refillRate_refill)

lemma executes_close:
  "prev \<le> lastRefill l \<Longrightarrow> close_calls (refillRate l) prev (map fst calls)
     \<Longrightarrow> tokens (fst (executes l calls w)) \<le> tokens l"
proof (induction calls arbitrary: l prev w)
  case Nil
  then show ?case by simp
next
  case (Cons c calls)
  obtain now fn where c: "c = (now, fn)" by (cases c)
  obtain r l' w' where e: "execute l now fn w = (r, l', w')" by (cases "execute l now fn w")
  from Cons.prems c have gap: "now - prev < refillRate l"
    and rest: "close_calls (refillRate l) now (map fst calls)" by simp_all
  from execute_close [OF Cons.prems(1) gap, of fn w] e
  have le: "tokens l' \<le> tokens l" and lr: "now \<le> lastRefill l'"
    and rr: "refillRate l' = refillRate l" by simp_all
  from rest rr have "close_calls (refillRate l') now (map fst calls)" by simp
  from Cons.IH [OF lr this] have "tokens (fst (executes l' calls w')) \<le> tokens l'" .
  with le c e show ?case by simp
qed

lemma executes_append:
  "executes l (xs @ ys) w = (case executes l xs w of (l', w') \<Rightarrow> executes l' ys w')"
  by (induction xs arbitrary: l w) (auto split: prod.splits)

lemma close_calls_append:
  "close_calls win prev (xs @ ys)
     = (close_calls win prev xs \<and> close_calls win (last (prev # xs)) ys)"
  by (induction xs arbitrary: prev) auto

lemma executes_lastRefill:
  "prev \<le> lastRefill l \<Longrightarrow> close_calls (refillRate l) prev (map fst calls)
     \<Longrightarrow> last (prev # map fst calls) \<le> lastRefill (fst (executes l calls w))
         \<and> refillRate (fst (executes l calls w)) = refillRate l"
proof (induction calls arbitrary: l prev w)
  case Nil
  then show ?case by simp
next
  case (Cons c calls)
  obtain now fn where c: "c = (now, fn)" by (cases c)
  obtain r l' w' where e: "execute l now fn w = (r, l', w')" by (cases "execute l now fn w")
  from Cons.prems c have gap: "now - prev < refillRate l"
    and rest: "close_calls (refillRate l) now (map fst calls)" by simp_all
  from execute_close [OF Cons.prems(1) gap, of fn w] e
  have lr: "now \<le> lastRefill l'" and rr: "refillRate l' = refillRate l" by simp_all
  from rest rr have "close_calls (refillRate l') now (map fst calls)" by simp
  from Cons.IH [OF lr this, of w'] rr c e show ?case by simp
qed

text \<open>
  C10. A call of \<open>execute\<close> with positive elapsed time sets \<open>lastRefill\<close> to \<open>now\<close>, also
  when \<open>\<lfloor>elapsed / refillRate\<rfloor>\<close> is 0 and the refill adds no token (the count is then
  only capped at \<open>maxTokens\<close>). So, after any first call at time \<open>now\<close>, along every
  sequence of calls in which each call comes less than \<open>refillRate\<close> milliseconds after the
  call before it, the token count never increases: the count after a longer run of the
  sequence is at most the count after a shorter one, however long the whole sequence lasts.
  (The window of the limiter is not 0: the constructor never gives 0.)
\<close>

theorem tokens_never_increase_between_close_calls:
  assumes "refillRate l \<noteq> 0"
  shows "(0 < now - lastRefill l \<longrightarrow> lastRefill (fst (snd (execute l now fn w))) = now)
   \<and> (0 < now - lastRefill l \<and> (now - lastRefill l) div refillRate l = 0
        \<longrightarrow> tokens (refill l now) = min (maxTokens l) (tokens l))
   \<and> (close_calls (refillRate l) now (map fst (calls1 @ calls2))
        \<longrightarrow> tokens (fst (executes l ((now, fn) # calls1 @ calls2) w))
              \<le> tokens (fst (executes l ((now, fn) # calls1) w)))"
proof -
  have advance: "0 < now - lastRefill l \<longrightarrow> lastRefill (fst (snd (execute l now fn w))) = now"
    using execute_limiter_cases [of l now fn w] by (auto simp: refill_def Let_def)
  have nothing_added: "0 < now - lastRefill l \<and> (now - lastRefill l) div refillRate l = 0
        \<longrightarrow> tokens (refill l now) = min (maxTokens l) (tokens l)"
    by (simp add: refill_def Let_def)
  have monotone: "close_calls (refillRate l) now (map fst (calls1 @ calls2))
        \<longrightarrow> tokens (fst (executes l ((now, fn) # calls1 @ calls2) w))
              \<le> tokens (fst (executes l ((now, fn) # calls1) w))"
  proof
    assume cc: "close_calls (refillRate l) now (map fst (calls1 @ calls2))"
    obtain r l1 w1 where e: "execute l now fn w = (r, l1, w1)" by (cases "execute l now fn w")
    have lr1: "now \<le> lastRefill l1" and rr1: "refillRate l1 = refillRate l"
      using e execute_limiter_cases [of l now fn w]
      by (auto simp: refill_def Let_def)
    from cc rr1 have cc1: "close_calls (refillRate l1) now (map fst calls1)"
      and cc2: "close_calls (refillRate l1) (last (now # map fst calls1)) (map fst calls2)"
      by (simp_all add: close_calls_append)
    obtain l2 w2 where e2: "executes l1 calls1 w1 = (l2, w2)" by (cases "executes l1 calls1 w1")
    from executes_lastRefill [OF lr1 cc1, of w1] e2
    have lr2: "last (now # map fst calls1) \<le> lastRefill l2"
      and rr2: "refillRate l2 = refillRate l1" by simp_all
    from cc2 rr2 have "close_calls (refillRate l2) (last (now # map fst calls1)) (map fst calls2)"
      by simp
    from executes_close [OF lr2 this, of w2]
    have "tokens (fst (executes l2 calls2 w2)) \<le> tokens l2" .
    with e e2 show "tokens (fst (executes l ((now, fn) # calls1 @ calls2) w))
              \<le> tokens (fst (executes l ((now, fn) # calls1) w))"
      by (simp add: executes_append)
  qed
  from advance nothing_added monotone show ?thesis by blast
qed

theorem tokens_never_increase_between_close_calls_witness:
  "refillRate empty_limiter \<noteq> 0
   \<and> (0::int) < 50000 - lastRefill empty_limiter
   \<and> (50000 - lastRefill empty_limiter) div refillRate empty_limiter = 0
   \<and> close_calls 60000 50000
        (map fst ([(100000, \<lambda>u. (Inr True, u))] @ [(150000, \<lambda>u. (Inr True, u))]))
   \<and> lastRefill (fst (snd (execute empty_limiter 50000 (\<lambda>u. (Inr True, u)) ()))) = 50000
   \<and> tokens (refill empty_limiter 50000) = min (maxTokens empty_limiter) (tokens empty_limiter)
   \<and> tokens (fst (executes empty_limiter
        ((50000, \<lambda>u. (Inr True, u))
           # [(100000, \<lambda>u. (Inr True, u))] @ [(150000, \<lambda>u. (Inr True, u))]) ()))
      \<le> tokens (fst (executes empty_limiter
        ((50000, \<lambda>u. (Inr True, u)) # [(100000, \<lambda>u. (Inr True, u))]) ()))
   \<and> tokens (fst (executes empty_limiter
        ((50000, \<lambda>u. (Inr True, u))
           # [(100000, \<lambda>u. (Inr True, u))] @ [(150000, \<lambda>u. (Inr True, u))]) ())) = 0"
proof -
  let ?f = "\<lambda>u::unit. (Inr True :: js_error + bool, u)"
  have h0: "refillRate empty_limiter \<noteq> 0" by simp
  have h1: "(0::int) < 50000 - lastRefill empty_limiter" by simp
  have h2: "(50000 - lastRefill empty_limiter) div refillRate empty_limiter = 0" by simp
  have h3: "close_calls (refillRate empty_limiter) 50000
              (map fst ([(100000, ?f)] @ [(150000, ?f)]))"
    by simp
  have still_empty: "tokens (fst (executes empty_limiter
        ((50000, ?f) # [(100000, ?f)] @ [(150000, ?f)]) ())) = 0"
    by (simp add: execute_def refill_def Let_def)
  show ?thesis
    using h0 h1 h2 h3 still_empty
      tokens_never_increase_between_close_calls
        [OF h0, where now = 50000 and fn = ?f and w = "()"
           and ?calls1.0 = "[(100000, ?f)]" and ?calls2.0 = "[(150000, ?f)]"]
    by simp
qed

section \<open>Backoff: the delay and its bounds\<close>

lemma calculateBackoff_eq:
  "0 \<le> n \<Longrightarrow> calculateBackoff n j = min 60000 (2 ^ nat n * 1000 + j)"
  by (simp add: calculateBackoff_def Let_def power_int_def)

text \<open>
  C7, as stated, at \<open>n = 6\<close> and \<open>j = 0\<close>: the delay is the cap, 60000, which is below
  \<open>2 ^ 6 * 1000 = 64000\<close>, so it does not lie within \<open>[2 ^ n * 1000, 2 ^ n * 1000 + 1000]\<close>.
\<close>

theorem calculateBackoff_below_lower_bound:
  "calculateBackoff 6 0 = 60000 \<and> \<not> (2 ^ 6 * 1000 \<le> calculateBackoff 6 0)"
  by (simp add: calculateBackoff_def Let_def power_int_def)

text \<open>
  C7, amended. For every retry count \<open>n \<ge> 0\<close> and every jitter \<open>j\<close> in \<open>[0, 1000)\<close> the
  delay is \<open>min 60000 (2 ^ n * 1000 + j)\<close>. It never exceeds 60000 nor
  \<open>2 ^ n * 1000 + 1000\<close>, and it is at least \<open>min 60000 (2 ^ n * 1000)\<close>: the lower bound
  \<open>2 ^ n * 1000\<close> holds for \<open>n \<le> 5\<close>, and from \<open>n = 6\<close> on the delay is the cap 60000.
\<close>

theorem calculateBackoff_bounds:
  assumes "0 \<le> n" and "0 \<le> j" and "j < 1000"
  shows "calculateBackoff n j = min 60000 (2 ^ nat n * 1000 + j)
         \<and> calculateBackoff n j \<le> 60000
         \<and> calculateBackoff n j \<le> 2 ^ nat n * 1000 + 1000
         \<and> min 60000 (2 ^ nat n * 1000) \<le> calculateBackoff n j
         \<and> (n \<le> 5 \<longrightarrow> 2 ^ nat n * 1000 \<le> calculateBackoff n j)
         \<and> (6 \<le> n \<longrightarrow> calculateBackoff n j = 60000)"
proof -
  have e: "calculateBackoff n j = min 60000 (2 ^ nat n * 1000 + j)"
    using assms(1) by (rule calculateBackoff_eq)
  have small: "n \<le> 5 \<longrightarrow> (2::real) ^ nat n * 1000 \<le> 60000"
  proof
    assume "n \<le> 5"
    then have "nat n \<le> 5" by simp
    then have "(2::real) ^ nat n \<le> 2 ^ 5" by (intro power_increasing) simp_all
    then show "(2::real) ^ nat n * 1000 \<le> 60000" by simp
  qed
  have big: "6 \<le> n \<longrightarrow> (60000::real) \<le> 2 ^ nat n * 1000"
  proof
    assume "6 \<le> n"
    then have "6 \<le> nat n" by simp
    then have "(2::real) ^ 6 \<le> 2 ^ nat n" by (intro power_increasing) simp_all
    then show "(60000::real) \<le> 2 ^ nat n * 1000" by simp
  qed
  from e assms small big show ?thesis by (auto simp: min_def)
qed

theorem calculateBackoff_bounds_witness:
  "(0::int) \<le> 3 \<and> (0::real) \<le> 500 \<and> (500::real) < 1000 \<and> (3::int) \<le> 5
   \<and> calculateBackoff 3 500 = 8500 \<and> 2 ^ nat 3 * 1000 \<le> calculateBackoff 3 500
   \<and> (0::int) \<le> 7 \<and> (6::int) \<le> 7 \<and> calculateBackoff 7 500 = 60000"
  using calculateBackoff_bounds [of 3 500] calculateBackoff_bounds [of 7 500] by simp


section \<open>The task processor: what the failure handler records\<close>

text \<open>The error of the rate limiter is one that the classifier takes as transient.\<close>

lemma rate_limit_error_transient:
  "isTransientError (new_Error (rate_limit_message waitTime)) = Inr True"
  by (simp add: isTransientError_def new_Error_def rate_limit_message_def)

text \<open>
  C1, as stated, at a concrete failure: a job with \<open>retries = maxRetries = 3\<close> and a
  thrown connection timeout, which \<open>isTransientError\<close> classifies as transient. The status
  that the handler records is \<open>retry\<close>, not \<open>failed\<close>. The same happens in a whole run
  of \<open>processJob\<close> on such a job when the error that the pipeline throws is transient
  (here the unsupported-type error of a type whose name contains \<open>timeout\<close>).
\<close>

theorem processJob_catch_retry_at_maxRetries:
  "retries (empty_job\<lparr>id_job := Some ''j1'', type_job := Some ''pdf-processing'',
                      retries := Some 3, maxRetries := Some 3\<rparr>)
     = maxRetries (empty_job\<lparr>id_job := Some ''j1'', type_job := Some ''pdf-processing'',
                      retries := Some 3, maxRetries := Some 3\<rparr>)
   \<and> isTransientError \<lparr>message = Some ''connect ETIMEDOUT'', code = Some ''ETIMEDOUT''\<rparr>
       = Inr True
   \<and> map status (saved (snd (processJob_catch
        (empty_job\<lparr>id_job := Some ''j1'', type_job := Some ''pdf-processing'',
                    retries := Some 3, maxRetries := Some 3\<rparr>)
        \<lparr>message = Some ''connect ETIMEDOUT'', code = Some ''ETIMEDOUT''\<rparr> 10 11
        \<lparr>geminiApiLimiter = geminiApiLimiter_init 0, saved = [], notified = [],
         jobStore = Map.empty\<rparr>)))
       = [Some ''retry'']
   \<and> map status (saved (snd (processJob
        (empty_job\<lparr>id_job := Some ''j3'', type_job := Some ''network timeout'',
                    retries := Some 3, maxRetries := Some 3\<rparr>)
        sample_env (sample_world (geminiApiLimiter_init 0)))))
       = [Some ''processing'', Some ''retry'']"
  by (simp add: processJob_def processJob_catch_def isTransientError_def jobWithError_def
      updateJobStatus_def saveJob_def notifyJobStatusChange_def empty_job_def new_Error_def
      template_str_def Let_def)

text \<open>
  C1, amended. The status that the failure handler of \<open>processJob\<close> records depends on
  the classification of the error alone: \<open>retry\<close> for a transient error, \<open>failed\<close> for
  any other, whatever the job's \<open>retries\<close> and \<open>maxRetries\<close> are. The handler leaves both
  counters as they were, records and notifies the job with the error attached, and rethrows.
\<close>

theorem processJob_catch_status:
  assumes "isTransientError err = Inr transient"
  shows "processJob_catch j err t1 t2 w
           = (Inl err, notifyJobStatusChange (jobWithError j err transient t1 t2)
                         (saveJob (jobWithError j err transient t1 t2) w))
         \<and> last (saved (snd (processJob_catch j err t1 t2 w))) = jobWithError j err transient t1 t2
         \<and> status (jobWithError j err transient t1 t2)
             = Some (if transient then ''retry'' else ''failed'')
         \<and> retries (jobWithError j err transient t1 t2) = retries j
         \<and> maxRetries (jobWithError j err transient t1 t2) = maxRetries j"
  using assms
  by (simp add: processJob_catch_def jobWithError_def updateJobStatus_def
      saveJob_def notifyJobStatusChange_def Let_def)

theorem processJob_catch_status_witness:
  "isTransientError \<lparr>message = Some ''connect ETIMEDOUT'', code = Some ''ETIMEDOUT''\<rparr>
     = Inr True
   \<and> status (last (saved (snd (processJob_catch
        (empty_job\<lparr>id_job := Some ''j1'', type_job := Some ''pdf-processing'',
                    retries := Some 3, maxRetries := Some 3\<rparr>)
        \<lparr>message = Some ''connect ETIMEDOUT'', code = Some ''ETIMEDOUT''\<rparr> 10 11
        \<lparr>geminiApiLimiter = geminiApiLimiter_init 0, saved = [], notified = [],
         jobStore = Map.empty\<rparr>))))
       = Some ''retry''
   \<and> isTransientError \<lparr>message = Some ''Missing documentUrl for PDF processing job'',
                        code = None\<rparr>
     = Inr False
   \<and> status (last (saved (snd (processJob_catch
        (empty_job\<lparr>id_job := Some ''j1'', type_job := Some ''pdf-processing'',
                    retries := Some 0, maxRetries := Some 3\<rparr>)
        \<lparr>message = Some ''Missing documentUrl for PDF processing job'', code = None\<rparr> 10 11
        \<lparr>geminiApiLimiter = geminiApiLimiter_init 0, saved = [], notified = [],
         jobStore = Map.empty\<rparr>))))
       = Some ''failed''"
proof -
  let ?e1 = "\<lparr>message = Some ''connect ETIMEDOUT'', code = Some ''ETIMEDOUT''\<rparr>"
  let ?e2 = "\<lparr>message = Some ''Missing documentUrl for PDF processing job'', code = None\<rparr>"
  have h1: "isTransientError ?e1 = Inr True" by (simp add: isTransientError_def)
  have h2: "isTransientError ?e2 = Inr False" by (simp add: isTransientError_def)
  let ?w = "\<lparr>geminiApiLimiter = geminiApiLimiter_init 0, saved = [], notified = [],
             jobStore = Map.empty\<rparr>"
  show ?thesis
    using h1 h2
      processJob_catch_status [OF h1, where j = "empty_job\<lparr>id_job := Some ''j1'',
           type_job := Some ''pdf-processing'', retries := Some 3, maxRetries := Some 3\<rparr>"
         and ?t1.0 = 10 and ?t2.0 = 11 and w = ?w]
      processJob_catch_status [OF h2, where j = "empty_job\<lparr>id_job := Some ''j1'',
           type_job := Some ''pdf-processing'', retries := Some 0, maxRetries := Some 3\<rparr>"
         and ?t1.0 = 10 and ?t2.0 = 11 and w = ?w]
    by (simp add: saveJob_def notifyJobStatusChange_def)
qed

text \<open>
  C9. The classifier is not total: for an error value that has no message and whose code
  is none of \<open>ETIMEDOUT\<close>, \<open>ECONNRESET\<close>, \<open>ECONNREFUSED\<close>, \<open>isTransientError\<close> throws
  (the unguarded \<^verbatim>\<open>error.message.includes\<close>) instead of returning false, and the
  failure handler of \<open>processJob\<close> ends with that \<^verbatim>\<open>TypeError\<close> before it saves or
  notifies anything: the state is the one before the handler.
\<close>

theorem isTransientError_throws_without_message:
  assumes "message err = None"
    and "code err \<noteq> Some ''ETIMEDOUT''" and "code err \<noteq> Some ''ECONNRESET''"
    and "code err \<noteq> Some ''ECONNREFUSED''"
  shows "isTransientError err = Inl includes_TypeError
         \<and> processJob_catch j err t1 t2 w = (Inl includes_TypeError, w)"
  using assms by (simp add: isTransientError_def processJob_catch_def)

theorem isTransientError_throws_without_message_witness:
  "message \<lparr>message = None, code = Some ''EPIPE''\<rparr> = None
   \<and> code \<lparr>message = None, code = Some ''EPIPE''\<rparr> \<noteq> Some ''ETIMEDOUT''
   \<and> code \<lparr>message = None, code = Some ''EPIPE''\<rparr> \<noteq> Some ''ECONNRESET''
   \<and> code \<lparr>message = None, code = Some ''EPIPE''\<rparr> \<noteq> Some ''ECONNREFUSED''
   \<and> isTransientError \<lparr>message = None, code = Some ''EPIPE''\<rparr> = Inl includes_TypeError
   \<and> saved (snd (processJob_catch
        (empty_job\<lparr>id_job := Some ''j1'', type_job := Some ''pdf-processing''\<rparr>)
        \<lparr>message = None, code = Some ''EPIPE''\<rparr> 10 11
        \<lparr>geminiApiLimiter = geminiApiLimiter_init 0, saved = [], notified = [],
         jobStore = Map.empty\<rparr>)) = []"
proof -
  let ?e = "\<lparr>message = None, code = Some ''EPIPE''\<rparr>"
  have h1: "message ?e = None" by simp
  have h2: "code ?e \<noteq> Some ''ETIMEDOUT''" by simp
  have h3: "code ?e \<noteq> Some ''ECONNRESET''" by simp
  have h4: "code ?e \<noteq> Some ''ECONNREFUSED''" by simp
  show ?thesis
    using h1 h2 h3 h4
      isTransientError_throws_without_message [OF h1 h2 h3 h4,
        where j = "empty_job\<lparr>id_job := Some ''j1'', type_job := Some ''pdf-processing''\<rparr>"
          and ?t1.0 = 10 and ?t2.0 = 11
          and w = "\<lparr>geminiApiLimiter = geminiApiLimiter_init 0, saved = [], notified = [],
                    jobStore = Map.empty\<rparr>"]
    by simp
qed

section \<open>Job creation\<close>

text \<open>
  C8, as stated, at a payload that has an \<open>id\<close> and a \<open>status\<close> of its own: the job
  that \<open>createJob\<close> returns has the payload's status and id, not \<open>pending\<close> and not the
  generated identifier.
\<close>

theorem createJob_overridden:
  "status (createJob ''generated-id'' 1 2
             (empty_job\<lparr>id_job := Some ''mine'', status := Some ''completed''\<rparr>))
     = Some ''completed''
   \<and> status (createJob ''generated-id'' 1 2
             (empty_job\<lparr>id_job := Some ''mine'', status := Some ''completed''\<rparr>))
     \<noteq> Some ''pending''
   \<and> id_job (createJob ''generated-id'' 1 2
             (empty_job\<lparr>id_job := Some ''mine'', status := Some ''completed''\<rparr>))
     = Some ''mine''
   \<and> id_job (createJob ''generated-id'' 1 2
             (empty_job\<lparr>id_job := Some ''mine'', status := Some ''completed''\<rparr>))
     \<noteq> Some ''generated-id''"
  by (simp add: createJob_def spread_def override_def empty_job_def)

text \<open>
  C8, amended. \<open>createJob\<close> returns a job whose status is \<open>pending\<close> when the payload
  has no status, and whose id is the generated identifier when the payload has no id; a
  status or id that the payload has is the one of the job, since the payload is spread
  after the defaults.
\<close>

theorem createJob_defaults:
  "(status jobData = None \<longrightarrow> status (createJob generated t1 t2 jobData) = Some ''pending'')
   \<and> (id_job jobData = None \<longrightarrow> id_job (createJob generated t1 t2 jobData) = Some generated)
   \<and> (status jobData \<noteq> None \<longrightarrow> status (createJob generated t1 t2 jobData) = status jobData)
   \<and> (id_job jobData \<noteq> None \<longrightarrow> id_job (createJob generated t1 t2 jobData) = id_job jobData)"
  by (auto simp add: createJob_def spread_def override_def empty_job_def)

theorem createJob_defaults_witness:
  "status (empty_job\<lparr>type_job := Some ''pdf-processing''\<rparr>) = None
   \<and> id_job (empty_job\<lparr>type_job := Some ''pdf-processing''\<rparr>) = None
   \<and> status (createJob ''generated-id'' 1 2 (empty_job\<lparr>type_job := Some ''pdf-processing''\<rparr>))
       = Some ''pending''
   \<and> id_job (createJob ''generated-id'' 1 2 (empty_job\<lparr>type_job := Some ''pdf-processing''\<rparr>))
       = Some ''generated-id''
   \<and> status (empty_job\<lparr>id_job := Some ''mine'', status := Some ''completed''\<rparr>) \<noteq> None
   \<and> id_job (empty_job\<lparr>id_job := Some ''mine'', status := Some ''completed''\<rparr>) \<noteq> None
   \<and> status (createJob ''generated-id'' 1 2
               (empty_job\<lparr>id_job := Some ''mine'', status := Some ''completed''\<rparr>))
       = Some ''completed''
   \<and> id_job (createJob ''generated-id'' 1 2
               (empty_job\<lparr>id_job := Some ''mine'', status := Some ''completed''\<rparr>))
       = Some ''mine''"
proof -
  let ?a = "empty_job\<lparr>type_job := Some ''pdf-processing''\<rparr>"
  let ?b = "empty_job\<lparr>id_job := Some ''mine'', status := Some ''completed''\<rparr>"
  have ha: "status ?a = None \<and> id_job ?a = None" by (simp add: empty_job_def)
  have hb: "status ?b = Some ''completed'' \<and> id_job ?b = Some ''mine''" by (simp add: empty_job_def)
  show ?thesis
    using ha hb createJob_defaults [of ?a "''generated-id''" 1 2]
      createJob_defaults [of ?b "''generated-id''" 1 2]
    by simp
qed

section \<open>Cancellation\<close>

text \<open>
  C6. For a stored job whose status is not \<open>pending\<close>, the cancel handler answers with
  the error \<open>Cannot cancel job\<close> (HTTP status 400) and leaves everything as it was: the
  store, and so the job with all its fields, and the lists of saved and notified jobs.
  A cancellation that succeeds (status 200) was of a stored job with status \<open>pending\<close>.
\<close>

theorem cancelJob_only_pending:
  "(jobStore w (jobId req) = Some j \<and> status j \<noteq> Some ''pending''
      \<longrightarrow> cancelJob req t1 t2 w
           = ((400, ErrorBody ''Cannot cancel job''
                      (''Job with status '' @ [CHR 0x22] @ template_str (status j)
                       @ [CHR 0x22]
                       @ '' cannot be cancelled. Only pending jobs can be cancelled.'')), w))
   \<and> (fst (fst (cancelJob req t1 t2 w)) = 200
      \<longrightarrow> (\<exists>p. jobStore w (jobId req) = Some p \<and> status p = Some ''pending''))"
proof (intro conjI impI)
  assume "jobStore w (jobId req) = Some j \<and> status j \<noteq> Some ''pending''"
  then show "cancelJob req t1 t2 w
           = ((400, ErrorBody ''Cannot cancel job''
                      (''Job with status '' @ [CHR 0x22] @ template_str (status j)
                       @ [CHR 0x22]
                       @ '' cannot be cancelled. Only pending jobs can be cancelled.'')), w)"
    by (simp add: cancelJob_def findJobById_def)
next
  assume ok: "fst (fst (cancelJob req t1 t2 w)) = 200"
  show "\<exists>p. jobStore w (jobId req) = Some p \<and> status p = Some ''pending''"
  proof (cases "jobStore w (jobId req)")
    case None
    with ok show ?thesis by (simp add: cancelJob_def findJobById_def)
  next
    case (Some p)
    show ?thesis
    proof (cases "status p = Some ''pending''")
      case True
      with Some show ?thesis by simp
    next
      case False
      with ok Some show ?thesis by (simp add: cancelJob_def findJobById_def)
    qed
  qed
qed

theorem cancelJob_only_pending_witness:
  "jobStore \<lparr>geminiApiLimiter = geminiApiLimiter_init 0, saved = [], notified = [],
             jobStore = [''j1'' \<mapsto> empty_job\<lparr>id_job := Some ''j1'',
                                               status := Some ''processing''\<rparr>]\<rparr>
     (jobId \<lparr>jobId = ''j1'', user_id = None, body = Some None\<rparr>)
     = Some (empty_job\<lparr>id_job := Some ''j1'', status := Some ''processing''\<rparr>)
   \<and> status (empty_job\<lparr>id_job := Some ''j1'', status := Some ''processing''\<rparr>)
       \<noteq> Some ''pending''
   \<and> fst (fst (cancelJob \<lparr>jobId = ''j1'', user_id = None, body = Some None\<rparr> 1 2
        \<lparr>geminiApiLimiter = geminiApiLimiter_init 0, saved = [], notified = [],
         jobStore = [''j1'' \<mapsto> empty_job\<lparr>id_job := Some ''j1'',
                                           status := Some ''processing''\<rparr>]\<rparr>)) = 400
   \<and> snd (cancelJob \<lparr>jobId = ''j1'', user_id = None, body = Some None\<rparr> 1 2
        \<lparr>geminiApiLimiter = geminiApiLimiter_init 0, saved = [], notified = [],
         jobStore = [''j1'' \<mapsto> empty_job\<lparr>id_job := Some ''j1'',
                                           status := Some ''processing''\<rparr>]\<rparr>)
      = \<lparr>geminiApiLimiter = geminiApiLimiter_init 0, saved = [], notified = [],
         jobStore = [''j1'' \<mapsto> empty_job\<lparr>id_job := Some ''j1'',
                                           status := Some ''processing''\<rparr>]\<rparr>
   \<and> fst (fst (cancelJob \<lparr>jobId = ''j1'', user_id = None, body = Some None\<rparr> 1 2
        \<lparr>geminiApiLimiter = geminiApiLimiter_init 0, saved = [], notified = [],
         jobStore = [''j1'' \<mapsto> empty_job\<lparr>id_job := Some ''j1'',
                                           status := Some ''pending''\<rparr>]\<rparr>)) = 200
   \<and> (\<exists>p. [''j1'' \<mapsto> empty_job\<lparr>id_job := Some ''j1'', status := Some ''pending''\<rparr>] ''j1''
             = Some p \<and> status p = Some ''pending'')"
proof -
  let ?req = "\<lparr>jobId = ''j1'', user_id = None, body = Some None\<rparr>"
  let ?j = "empty_job\<lparr>id_job := Some ''j1'', status := Some ''processing''\<rparr>"
  let ?w = "\<lparr>geminiApiLimiter = geminiApiLimiter_init 0, saved = [], notified = [],
             jobStore = [''j1'' \<mapsto> ?j]\<rparr>"
  let ?w2 = "\<lparr>geminiApiLimiter = geminiApiLimiter_init 0, saved = [], notified = [],
         jobStore = [''j1'' \<mapsto> empty_job\<lparr>id_job := Some ''j1'',
                                           status := Some ''pending''\<rparr>]\<rparr>"
  have h1: "jobStore ?w (jobId ?req) = Some ?j" by simp
  have h2: "status ?j \<noteq> Some ''pending''" by (simp add: empty_job_def)
  have h3: "fst (fst (cancelJob ?req 1 2 ?w2)) = 200"
    by (simp add: cancelJob_def findJobById_def Let_def empty_job_def)
  show ?thesis
    using h1 h2 h3 cancelJob_only_pending [of ?w ?req ?j 1 2]
      cancelJob_only_pending [of ?w2 ?req ?j 1 2]
    by simp
qed


section \<open>The PDF pipeline: a failed analysis\<close>

lemma extractedText_fetched:
  "extractedText (extractTextFromDocument (fetchDocument u d t) t')
     = Some ''Simulated extraction from This is sample content for doc...''"
  by (simp add: extractTextFromDocument_def fetchDocument_def Let_def)

lemma geminiAnalysis_extracted:
  "geminiAnalysis (extractTextFromDocument (fetchDocument u d t) t') = None"
  by (simp add: extractTextFromDocument_def fetchDocument_def Let_def)

lemma geminiAnalysis_analyzeDocument:
  "geminiAnalysis (analyzeDocument d ds t) = geminiAnalysis d"
  by (simp add: analyzeDocument_def Let_def)

lemma extractedText_analyzeDocument:
  "extractedText (analyzeDocument d ds t) = extractedText d"
  by (simp add: analyzeDocument_def Let_def)

lemma analyzeStep_failed:
  assumes "analyzeContent j \<noteq> Some False"
    and "fst (callGeminiForAnalysis (gemini ev) (extractedText dwt) (t_limiter ev) limiter) = Inl err"
  shows "analyzeStep j dwt ev limiter
           = (analyzeDocument dwt (draws ev) (t_analyzed ev),
              snd (callGeminiForAnalysis (gemini ev) (extractedText dwt) (t_limiter ev) limiter))"
  using assms
  by (cases "callGeminiForAnalysis (gemini ev) (extractedText dwt) (t_limiter ev) limiter")
     (auto simp: analyzeStep_def)

text \<open>
  C5. Take a job with a document URL that asks for the analysis (\<open>analyzeContent\<close> is
  not \<open>false\<close>) and whose Gemini call fails, by the rate limit or by an error of the
  call itself (the window of the limiter is not 0: the constructor never gives 0). \<open>processPdfJob\<close> still returns a job: its result holds the extracted text
  and the analysis of the document without the Gemini part (the processed document has no
  \<open>geminiAnalysis\<close>), and the error of the call goes no further. For a job of type
  \<open>pdf-processing\<close>, \<open>processJob\<close> then returns the job with status \<open>completed\<close> and
  that result, and it is the job saved last.
\<close>

theorem processPdfJob_degrades:
  assumes "documentUrl j = Some u" and "u \<noteq> []" and "analyzeContent j \<noteq> Some False"
    and "refillRate limiter \<noteq> 0"
    and "fst (callGeminiForAnalysis (gemini ev)
               (extractedText (extractTextFromDocument
                  (fetchDocument u (size_draw ev) (t_fetched ev)) (t_extracted ev)))
               (t_limiter ev) limiter) = Inl err"
  shows "\<exists>j' r. fst (processPdfJob j ev limiter) = Inr j'
           \<and> result j' = Some r
           \<and> result_extractedText r
               = Some ''Simulated extraction from This is sample content for doc...''
           \<and> result_extractedText r
               = extractedText (extractTextFromDocument
                   (fetchDocument u (size_draw ev) (t_fetched ev)) (t_extracted ev))
           \<and> result_analysis r
               = analysis (analyzeDocument (extractTextFromDocument
                   (fetchDocument u (size_draw ev) (t_fetched ev)) (t_extracted ev))
                   (draws ev) (t_analyzed ev))
           \<and> geminiAnalysis (fst (analyzeStep j (extractTextFromDocument
                   (fetchDocument u (size_draw ev) (t_fetched ev)) (t_extracted ev)) ev limiter))
               = None
           \<and> (type_job j = Some ''pdf-processing'' \<and> geminiApiLimiter w = limiter
                \<longrightarrow> (\<exists>c. fst (processJob j ev w) = Inr c \<and> status c = Some ''completed''
                         \<and> result c = Some r
                         \<and> last (saved (snd (processJob j ev w))) = c))"
proof -
  let ?dwt = "extractTextFromDocument (fetchDocument u (size_draw ev) (t_fetched ev)) (t_extracted ev)"
  let ?call = "callGeminiForAnalysis (gemini ev) (extractedText ?dwt) (t_limiter ev)"
  let ?r = "\<lparr>documentId = id_doc (fetchDocument u (size_draw ev) (t_fetched ev)),
             result_extractedText = extractedText ?dwt,
             result_analysis = analysis (analyzeDocument ?dwt (draws ev) (t_analyzed ev)),
             processedAt = t_processed ev\<rparr>"
  have step: "\<And>k. analyzeContent k = analyzeContent j \<Longrightarrow> analyzeStep k ?dwt ev limiter
      = (analyzeDocument ?dwt (draws ev) (t_analyzed ev), snd (?call limiter))"
    using assms(3,5) by (intro analyzeStep_failed) simp_all
  have pdf: "\<And>k. documentUrl k = Some u \<Longrightarrow> analyzeContent k = analyzeContent j \<Longrightarrow>
      processPdfJob k ev limiter = (Inr (k\<lparr>result := Some ?r\<rparr>), snd (?call limiter))"
    using assms(2) step
    by (simp add: processPdfJob_def Let_def extractedText_analyzeDocument)
  have a: "fst (processPdfJob j ev limiter) = Inr (j\<lparr>result := Some ?r\<rparr>)"
    using pdf [of j] assms(1) by simp
  have g: "geminiAnalysis (fst (analyzeStep j ?dwt ev limiter)) = None"
    using step [of j] by (simp add: geminiAnalysis_analyzeDocument geminiAnalysis_extracted)
  have whole: "type_job j = Some ''pdf-processing'' \<and> geminiApiLimiter w = limiter
      \<longrightarrow> (\<exists>c. fst (processJob j ev w) = Inr c \<and> status c = Some ''completed''
                 \<and> result c = Some ?r \<and> last (saved (snd (processJob j ev w))) = c)"
  proof
    assume h: "type_job j = Some ''pdf-processing'' \<and> geminiApiLimiter w = limiter"
    let ?k = "updateJobStatus j ''processing'' (t_processing ev)"
    have "processPdfJob ?k ev limiter = (Inr (?k\<lparr>result := Some ?r\<rparr>), snd (?call limiter))"
      using assms(1) by (intro pdf) (simp_all add: updateJobStatus_def)
    with h show "\<exists>c. fst (processJob j ev w) = Inr c \<and> status c = Some ''completed''
                 \<and> result c = Some ?r \<and> last (saved (snd (processJob j ev w))) = c"
      by (simp add: processJob_def Let_def saveJob_def notifyJobStatusChange_def
          updateJobStatus_def)
  qed
  from a g whole show ?thesis
    by (simp add: extractedText_fetched)
qed

theorem processPdfJob_degrades_witness:
  "documentUrl pdf_job = Some ''gs://bucket/docs/doc-1.pdf''
   \<and> ''gs://bucket/docs/doc-1.pdf'' \<noteq> []
   \<and> analyzeContent pdf_job \<noteq> Some False
   \<and> refillRate empty_limiter \<noteq> 0
   \<and> fst (callGeminiForAnalysis (gemini sample_env)
             (extractedText (extractTextFromDocument
                (fetchDocument ''gs://bucket/docs/doc-1.pdf'' (size_draw sample_env)
                   (t_fetched sample_env)) (t_extracted sample_env)))
             (t_limiter sample_env) empty_limiter)
       = Inl (new_Error (rate_limit_message 59))
   \<and> type_job pdf_job = Some ''pdf-processing''
   \<and> geminiApiLimiter (sample_world empty_limiter) = empty_limiter
   \<and> (\<exists>j' r. fst (processPdfJob pdf_job sample_env empty_limiter) = Inr j'
          \<and> result j' = Some r
          \<and> result_extractedText r
              = Some ''Simulated extraction from This is sample content for doc...''
          \<and> (\<exists>c. fst (processJob pdf_job sample_env (sample_world empty_limiter)) = Inr c
                 \<and> status c = Some ''completed'' \<and> result c = Some r))"
proof -
  have h1: "documentUrl pdf_job = Some ''gs://bucket/docs/doc-1.pdf''"
    by (simp add: empty_job_def)
  have h2: "''gs://bucket/docs/doc-1.pdf'' \<noteq> []" by simp
  have h3: "analyzeContent pdf_job \<noteq> Some False" by (simp add: empty_job_def)
  have h0: "refillRate empty_limiter \<noteq> 0" by simp
  have h4: "fst (callGeminiForAnalysis (gemini sample_env)
             (extractedText (extractTextFromDocument
                (fetchDocument ''gs://bucket/docs/doc-1.pdf'' (size_draw sample_env)
                   (t_fetched sample_env)) (t_extracted sample_env)))
             (t_limiter sample_env) empty_limiter)
       = Inl (new_Error (rate_limit_message 59))"
    by (simp add: callGeminiForAnalysis_def execute_def refill_def Let_def)
  have h5: "type_job pdf_job = Some ''pdf-processing''" by (simp add: empty_job_def)
  have h6: "geminiApiLimiter (sample_world empty_limiter) = empty_limiter" by simp
  from processPdfJob_degrades [OF h1 h2 h3 h0 h4, where w = "sample_world empty_limiter"] h5 h6
  have "\<exists>j' r. fst (processPdfJob pdf_job sample_env empty_limiter) = Inr j'
          \<and> result j' = Some r
          \<and> result_extractedText r
              = Some ''Simulated extraction from This is sample content for doc...''
          \<and> (\<exists>c. fst (processJob pdf_job sample_env (sample_world empty_limiter)) = Inr c
                 \<and> status c = Some ''completed'' \<and> result c = Some r)"
    by blast
  with h1 h2 h3 h0 h4 h5 h6 show ?thesis by blast
qed

section \<open>The queue manager: a job whose processing throws\<close>

lemma processNextJob_thrown:
  assumes tp: "taskProcessor qm = Some processor" and idle: "\<not> isProcessing qm"
    and q: "sort_scheduled (jobQueue qm) = nextJob # rest"
    and due: "scheduledFor nextJob = Some t" "t \<le> t_tick te"
    and thrown: "processor nextJob p = (Inl err, p')"
    and r: "retries nextJob = Some r"
    and idok: "truthy_str (id_job nextJob)"
  shows "processNextJob te qm p =
           (None,
            qm\<lparr>jobQueue :=
                  (if r < num_or (maxRetries nextJob) 3
                   then filter (\<lambda>j. id_job j \<noteq> id_job nextJob) (nextJob # rest)
                        @ [nextJob\<lparr>retries := Some (r + 1),
                                   scheduledFor := Some (new_Date (real_of_int (t_retry te)
                                                    + calculateBackoff r (jitter_draw te))),
                                   lastError := message err,
                                   queuedAt := Some (t_queued1 te)\<rparr>]
                   else filter (\<lambda>j. id_job j \<noteq> id_job nextJob) (nextJob # rest)),
                isProcessing := False\<rparr>,
            p')"
proof -
  have n0: "num_or (Some r) 0 = r" by (simp add: num_or_def)
  have waiting: "jobQueue qm \<noteq> []" using q by (auto simp: sort_scheduled_def)
  show ?thesis
    using assms n0 waiting
    by (simp add: processNextJob_def addJob_def Let_def)
qed

text \<open>
  C3 at a job that carries no \<open>retries\<close> field, queued and due, on which the processor
  throws: the tick leaves the queue empty, so the job is not re-enqueued, although its
  retry count, read as 0 by \<^verbatim>\<open>nextJob.retries || 0\<close>, is below the default maximum of 3.
  The same job with \<open>retries = 0\<close> is re-enqueued, with \<open>retries = 1\<close>.
\<close>

theorem processNextJob_drops_job_without_retries:
  "retries (queued pdf_job) = None
   \<and> jobQueue (fst (snd (processNextJob sample_tick
        \<lparr>jobQueue = [queued pdf_job], isProcessing = False, taskProcessor = Some failing\<rparr> ())))
     = []
   \<and> map retries (jobQueue (fst (snd (processNextJob sample_tick
        \<lparr>jobQueue = [queued (pdf_job\<lparr>retries := Some 0\<rparr>)], isProcessing = False,
         taskProcessor = Some failing\<rparr> ()))))
     = [Some 1]"
  by (simp add: processNextJob_def sort_scheduled_def addJob_def truthy_str_def num_or_def
      empty_job_def Let_def)

subsection \<open>Jobs of an unsupported type\<close>

lemma unsupported_message_includes:
  "includes_str (''Unsupported job type: '' @ t) ''timeout'' = includes_str t ''timeout''"
  "includes_str (''Unsupported job type: '' @ t) ''Rate limit exceeded''
     = includes_str t ''Rate limit exceeded''"
  by simp_all

lemma unsupported_not_transient:
  assumes "\<not> includes_str (template_str ty) ''timeout''"
    and "\<not> includes_str (template_str ty) ''Rate limit exceeded''"
  shows "isTransientError (new_Error (''Unsupported job type: '' @ template_str ty)) = Inr False"
  using assms
  by (simp add: isTransientError_def new_Error_def unsupported_message_includes)

lemma processJob_unsupported:
  assumes "type_job j \<noteq> Some ''pdf-processing''"
    and "isTransientError (new_Error (''Unsupported job type: '' @ template_str (type_job j)))
           = Inr transient"
  shows "processJob j ev w =
           (Inl (new_Error (''Unsupported job type: '' @ template_str (type_job j))),
            w\<lparr>saved := saved w @ [updateJobStatus j ''processing'' (t_processing ev),
                                   jobWithError j (new_Error (''Unsupported job type: ''
                                       @ template_str (type_job j))) transient
                                     (t_failed ev) (t_error ev)],
              notified := notified w @ [updateJobStatus j ''processing'' (t_processing ev),
                                   jobWithError j (new_Error (''Unsupported job type: ''
                                       @ template_str (type_job j))) transient
                                     (t_failed ev) (t_error ev)]\<rparr>)"
  using assms
  by (simp add: processJob_def processJob_catch_def saveJob_def notifyJobStatusChange_def Let_def)

text \<open>
  C4, as stated, at the job \<open>{id: "j2", type: "unknown-type", retries: 0}\<close>, queued and
  due, with \<open>processJob\<close> as the processor: the status recorded is \<open>failed\<close>, but the
  tick puts the job back in the queue, with \<open>retries = 1\<close>. And for a job whose
  unsupported type is named \<open>timeout\<close> the status recorded is \<open>retry\<close>: the message of the
  error contains the word that \<open>isTransientError\<close> looks for.
\<close>

theorem unsupported_type_requeued:
  "type_job (queued (unknown_job\<lparr>retries := Some 0\<rparr>)) = Some ''unknown-type''
   \<and> map status (saved (snd (snd (processNextJob sample_tick
        \<lparr>jobQueue = [queued (unknown_job\<lparr>retries := Some 0\<rparr>)], isProcessing = False,
         taskProcessor = Some (\<lambda>k. processJob k sample_env)\<rparr>
        (sample_world (geminiApiLimiter_init 0))))))
       = [Some ''processing'', Some ''failed'']
   \<and> map id_job (jobQueue (fst (snd (processNextJob sample_tick
        \<lparr>jobQueue = [queued (unknown_job\<lparr>retries := Some 0\<rparr>)], isProcessing = False,
         taskProcessor = Some (\<lambda>k. processJob k sample_env)\<rparr>
        (sample_world (geminiApiLimiter_init 0))))))
       = [Some ''j2'']
   \<and> map retries (jobQueue (fst (snd (processNextJob sample_tick
        \<lparr>jobQueue = [queued (unknown_job\<lparr>retries := Some 0\<rparr>)], isProcessing = False,
         taskProcessor = Some (\<lambda>k. processJob k sample_env)\<rparr>
        (sample_world (geminiApiLimiter_init 0))))))
       = [Some 1]
   \<and> map status (saved (snd (processJob
        (empty_job\<lparr>id_job := Some ''j3'', type_job := Some ''timeout''\<rparr>) sample_env
        (sample_world (geminiApiLimiter_init 0)))))
       = [Some ''processing'', Some ''retry'']"
  by (simp add: processNextJob_def sort_scheduled_def addJob_def truthy_str_def num_or_def
      empty_job_def Let_def processJob_def processJob_catch_def isTransientError_def
      new_Error_def saveJob_def notifyJobStatusChange_def jobWithError_def updateJobStatus_def
      template_str_def)

text \<open>
  C4, amended. For a job whose type is not \<open>pdf-processing\<close> and whose type name
  contains neither \<open>timeout\<close> nor \<open>Rate limit exceeded\<close>, \<open>processJob\<close> throws the
  unsupported-type error after it has recorded the statuses \<open>processing\<close> and then
  \<open>failed\<close>, with the error marked as not transient and the job's \<open>retries\<close> as it was.
  The queue manager does not look at the kind of the failure: when such a job is the due
  head of the queue and carries a retry count \<open>r\<close>, the tick re-enqueues it with
  \<open>retries = r + 1\<close> and the backoff delay if \<open>r\<close> is below \<^verbatim>\<open>maxRetries || 3\<close>, and
  does not re-enqueue it otherwise.
\<close>

theorem unsupported_type_failed:
  assumes "type_job j \<noteq> Some ''pdf-processing''"
    and "\<not> includes_str (template_str (type_job j)) ''timeout''"
    and "\<not> includes_str (template_str (type_job j)) ''Rate limit exceeded''"
  shows "fst (processJob j ev w)
           = Inl (new_Error (''Unsupported job type: '' @ template_str (type_job j)))
         \<and> map status (saved (snd (processJob j ev w)))
             = map status (saved w) @ [Some ''processing'', Some ''failed'']
         \<and> retries (last (saved (snd (processJob j ev w)))) = retries j
         \<and> map_option isTransient (error (last (saved (snd (processJob j ev w))))) = Some False
         \<and> (taskProcessor qm = Some (\<lambda>k. processJob k ev) \<and> \<not> isProcessing qm
              \<and> sort_scheduled (jobQueue qm) = j # rest
              \<and> scheduledFor j = Some t \<and> t \<le> t_tick te
              \<and> retries j = Some r \<and> truthy_str (id_job j)
            \<longrightarrow> jobQueue (fst (snd (processNextJob te qm w)))
                = (if r < num_or (maxRetries j) 3
                   then filter (\<lambda>k. id_job k \<noteq> id_job j) (j # rest)
                        @ [j\<lparr>retries := Some (r + 1),
                             scheduledFor := Some (new_Date (real_of_int (t_retry te)
                                               + calculateBackoff r (jitter_draw te))),
                             lastError := Some (''Unsupported job type: ''
                                                @ template_str (type_job j)),
                             queuedAt := Some (t_queued1 te)\<rparr>]
                   else filter (\<lambda>k. id_job k \<noteq> id_job j) (j # rest)))"
proof -
  let ?err = "new_Error (''Unsupported job type: '' @ template_str (type_job j))"
  have nt: "isTransientError ?err = Inr False"
    using assms(2,3) by (rule unsupported_not_transient)
  note run = processJob_unsupported [OF assms(1) nt, of ev w]
  have a: "fst (processJob j ev w) = Inl ?err" using run by simp
  have b: "map status (saved (snd (processJob j ev w)))
             = map status (saved w) @ [Some ''processing'', Some ''failed'']"
    using run by (simp add: updateJobStatus_def jobWithError_def Let_def)
  have c: "retries (last (saved (snd (processJob j ev w)))) = retries j"
    using run by (simp add: updateJobStatus_def jobWithError_def Let_def)
  have d: "map_option isTransient (error (last (saved (snd (processJob j ev w))))) = Some False"
    using run by (simp add: updateJobStatus_def jobWithError_def Let_def)
  have e: "taskProcessor qm = Some (\<lambda>k. processJob k ev) \<and> \<not> isProcessing qm
              \<and> sort_scheduled (jobQueue qm) = j # rest
              \<and> scheduledFor j = Some t \<and> t \<le> t_tick te
              \<and> retries j = Some r \<and> truthy_str (id_job j)
            \<longrightarrow> jobQueue (fst (snd (processNextJob te qm w)))
                = (if r < num_or (maxRetries j) 3
                   then filter (\<lambda>k. id_job k \<noteq> id_job j) (j # rest)
                        @ [j\<lparr>retries := Some (r + 1),
                             scheduledFor := Some (new_Date (real_of_int (t_retry te)
                                               + calculateBackoff r (jitter_draw te))),
                             lastError := Some (''Unsupported job type: ''
                                                @ template_str (type_job j)),
                             queuedAt := Some (t_queued1 te)\<rparr>]
                   else filter (\<lambda>k. id_job k \<noteq> id_job j) (j # rest))"
  proof
    assume h: "taskProcessor qm = Some (\<lambda>k. processJob k ev) \<and> \<not> isProcessing qm
              \<and> sort_scheduled (jobQueue qm) = j # rest
              \<and> scheduledFor j = Some t \<and> t \<le> t_tick te
              \<and> retries j = Some r \<and> truthy_str (id_job j)"
    have thrown: "(\<lambda>k. processJob k ev) j w = (Inl ?err, snd (processJob j ev w))"
      using a by (cases "processJob j ev w") simp
    from h have tp: "taskProcessor qm = Some (\<lambda>k. processJob k ev)" and idle: "\<not> isProcessing qm"
      and q: "sort_scheduled (jobQueue qm) = j # rest" and s: "scheduledFor j = Some t"
      and due: "t \<le> t_tick te" and r: "retries j = Some r" and idok: "truthy_str (id_job j)"
      by simp_all
    from processNextJob_thrown [OF tp idle q s due thrown r idok]
    show "jobQueue (fst (snd (processNextJob te qm w)))
                = (if r < num_or (maxRetries j) 3
                   then filter (\<lambda>k. id_job k \<noteq> id_job j) (j # rest)
                        @ [j\<lparr>retries := Some (r + 1),
                             scheduledFor := Some (new_Date (real_of_int (t_retry te)
                                               + calculateBackoff r (jitter_draw te))),
                             lastError := Some (''Unsupported job type: ''
                                                @ template_str (type_job j)),
                             queuedAt := Some (t_queued1 te)\<rparr>]
                   else filter (\<lambda>k. id_job k \<noteq> id_job j) (j # rest))"
      by (simp add: new_Error_def)
  qed
  from a b c d e show ?thesis by blast
qed

theorem unsupported_type_failed_witness:
  "type_job (queued (unknown_job\<lparr>retries := Some 0\<rparr>)) \<noteq> Some ''pdf-processing''
   \<and> \<not> includes_str (template_str (type_job (queued (unknown_job\<lparr>retries := Some 0\<rparr>))))
          ''timeout''
   \<and> \<not> includes_str (template_str (type_job (queued (unknown_job\<lparr>retries := Some 0\<rparr>))))
          ''Rate limit exceeded''
   \<and> sort_scheduled [queued (unknown_job\<lparr>retries := Some 0\<rparr>)]
       = [queued (unknown_job\<lparr>retries := Some 0\<rparr>)]
   \<and> truthy_str (id_job (queued (unknown_job\<lparr>retries := Some 0\<rparr>)))
   \<and> (0::int) < num_or (maxRetries (queued (unknown_job\<lparr>retries := Some 0\<rparr>))) 3
   \<and> map status (saved (snd (processJob (queued (unknown_job\<lparr>retries := Some 0\<rparr>))
        sample_env (sample_world (geminiApiLimiter_init 0)))))
       = [Some ''processing'', Some ''failed'']
   \<and> map retries (jobQueue (fst (snd (processNextJob sample_tick
        \<lparr>jobQueue = [queued (unknown_job\<lparr>retries := Some 0\<rparr>)], isProcessing = False,
         taskProcessor = Some (\<lambda>k. processJob k sample_env)\<rparr>
        (sample_world (geminiApiLimiter_init 0))))))
       = [Some 1]
   \<and> map scheduledFor (jobQueue (fst (snd (processNextJob sample_tick
        \<lparr>jobQueue = [queued (unknown_job\<lparr>retries := Some 0\<rparr>)], isProcessing = False,
         taskProcessor = Some (\<lambda>k. processJob k sample_env)\<rparr>
        (sample_world (geminiApiLimiter_init 0))))))
       = [Some 7250]
   \<and> \<not> (3::int) < num_or (maxRetries (queued (unknown_job\<lparr>retries := Some 3\<rparr>))) 3
   \<and> jobQueue (fst (snd (processNextJob sample_tick
        \<lparr>jobQueue = [queued (unknown_job\<lparr>retries := Some 3\<rparr>)], isProcessing = False,
         taskProcessor = Some (\<lambda>k. processJob k sample_env)\<rparr>
        (sample_world (geminiApiLimiter_init 0)))))
       = []"
proof -
  let ?j = "queued (unknown_job\<lparr>retries := Some 0\<rparr>)"
  let ?k = "queued (unknown_job\<lparr>retries := Some 3\<rparr>)"
  let ?w = "sample_world (geminiApiLimiter_init 0)"
  let ?qm = "\<lambda>j. \<lparr>jobQueue = [j], isProcessing = False,
                   taskProcessor = Some (\<lambda>k. processJob k sample_env)\<rparr>"
  have ty: "type_job ?j = Some ''unknown-type''" "type_job ?k = Some ''unknown-type''"
    by (simp_all add: empty_job_def)
  have h1: "type_job ?j \<noteq> Some ''pdf-processing''" "type_job ?k \<noteq> Some ''pdf-processing''"
    by (simp_all add: ty)
  have h2: "\<not> includes_str (template_str (type_job ?j)) ''timeout''"
    "\<not> includes_str (template_str (type_job ?k)) ''timeout''"
    by (simp_all add: ty template_str_def)
  have h3: "\<not> includes_str (template_str (type_job ?j)) ''Rate limit exceeded''"
    "\<not> includes_str (template_str (type_job ?k)) ''Rate limit exceeded''"
    by (simp_all add: ty template_str_def)
  have q: "sort_scheduled [?j] = [?j]" "sort_scheduled [?k] = [?k]"
    by (simp_all add: sort_scheduled_def)
  have more: "truthy_str (id_job ?j)" "truthy_str (id_job ?k)"
    "scheduledFor ?j = Some 0" "scheduledFor ?k = Some 0"
    "retries ?j = Some 0" "retries ?k = Some 3"
    "maxRetries ?j = None" "maxRetries ?k = None" "id_job ?j = Some ''j2''" "id_job ?k = Some ''j2''"
    by (simp_all add: empty_job_def truthy_str_def)
  have n: "num_or None 3 = 3" by (simp add: num_or_def)
  have delay: "new_Date (real_of_int 6000 + calculateBackoff 0 250.5) = 7250"
    by (simp add: new_Date_def calculateBackoff_def Let_def)
  note A = unsupported_type_failed [OF h1(1) h2(1) h3(1), where ev = sample_env and w = ?w
      and qm = "?qm ?j" and rest = "[]" and t = 0 and te = sample_tick and r = 0]
  note B = unsupported_type_failed [OF h1(2) h2(2) h3(2), where ev = sample_env and w = ?w
      and qm = "?qm ?k" and rest = "[]" and t = 0 and te = sample_tick and r = 3]
  have a1: "map status (saved (snd (processJob ?j sample_env ?w)))
       = [Some ''processing'', Some ''failed'']"
    using A by simp
  have a2: "jobQueue (fst (snd (processNextJob sample_tick (?qm ?j) ?w)))
       = [?j\<lparr>retries := Some 1, scheduledFor := Some 7250,
              lastError := Some (''Unsupported job type: '' @ template_str (type_job ?j)),
              queuedAt := Some 6001\<rparr>]"
    using A q more n delay by simp
  have b2: "jobQueue (fst (snd (processNextJob sample_tick (?qm ?k) ?w))) = []"
    using B q more n by simp
  have a3: "map retries (jobQueue (fst (snd (processNextJob sample_tick (?qm ?j) ?w))))
       = [Some 1]"
    unfolding a2 by simp
  have a4: "map scheduledFor (jobQueue (fst (snd (processNextJob sample_tick (?qm ?j) ?w))))
       = [Some 7250]"
    unfolding a2 by simp
  have c1: "(0::int) < num_or (maxRetries ?j) 3" using more n by simp
  have c2: "\<not> (3::int) < num_or (maxRetries ?k) 3" using more n by simp
  from h1(1) h2(1) h3(1) q(1) more(1) c1 a1 a3 a4 c2 b2 show ?thesis
    by blast
qed

end
